theory Spec2Isabelle
  imports Main "HOL-Library.Sublist"
begin

section \<open>Data model\<close>

text \<open>
  The daemon (\<^verbatim>\<open>browser-daemon.js\<close>) and the client (\<^verbatim>\<open>browser-client.js\<close>) are
  embedded as state-passing functions. A thrown JavaScript \<^verbatim>\<open>Error\<close> is represented by
  its \<^verbatim>\<open>message\<close>, the only part of it the code reads; a function that can throw returns
  \<open>exn + 'a\<close> together with the state it leaves behind.
\<close>

type_synonym exn = string

type_synonym handle = nat

record location =
  loc_url :: string
  lineNumber :: nat
  columnNumber :: nat

text \<open>An entry of \<^verbatim>\<open>consoleLogs\<close>: \<^verbatim>\<open>{type, text, location}\<close> or \<^verbatim>\<open>{type, text, stack}\<close>.\<close>

record log_entry =
  le_type :: string
  le_text :: string
  le_location :: "location option"
  le_stack :: "string option"

text \<open>What the engine hands to the two listeners bound by \<^verbatim>\<open>setupPageListeners\<close>.\<close>

datatype page_event =
  ConsoleMsg string string location
  | PageError string "string option"

text \<open>
  A value returned by \<^verbatim>\<open>page.evaluate\<close>, kept as its JSON text. The client only asks
  whether \<^verbatim>\<open>typeof\<close> of it is \<^verbatim>\<open>'object'\<close>.
\<close>

datatype jsvalue = JUndefined | JPrimitive string | JObject string

record screen_size =
  sc_width :: int
  sc_height :: int
  sc_innerWidth :: int
  sc_innerHeight :: int

text \<open>A Request: \<^verbatim>\<open>{action, data}\<close>; a field that is absent reads as \<^verbatim>\<open>undefined\<close>.\<close>

record cmd_data =
  url :: "string option"
  code :: "string option"
  width :: "int option"
  height :: "int option"

record command =
  action :: "string option"
  data :: "cmd_data option"

text \<open>The objects the daemon passes to \<^verbatim>\<open>writeResult\<close>, one constructor per shape.\<close>

datatype response =
  NavigateOk string string
  | ExecOk jsvalue
  | ConsoleOk "log_entry list"
  | ClearOk
  | StatusOk string string nat
  | ResizeOk "int option" "int option"
  | ErrorResp string

text \<open>\<^verbatim>\<open>console.log\<close> and \<^verbatim>\<open>console.error\<close> calls, argument by argument.\<close>

datatype stream = Stdout | Stderr

datatype outarg =
  Str string
  | Num int
  | Undef
  | ErrObj exn
  | Val jsvalue
  | Json jsvalue

type_synonym line = "stream \<times> outarg list"

text \<open>
  \<^verbatim>\<open>JSON.parse\<close> and \<^verbatim>\<open>JSON.stringify\<close> are taken as parameters: the command file and
  the result file hold text.
\<close>

record json =
  parseCommand :: "string \<Rightarrow> exn + command"
  stringifyCommand :: "command \<Rightarrow> string"
  parseResult :: "string \<Rightarrow> exn + response"
  stringifyResult :: "response \<Rightarrow> string"

text \<open>
  The browser-automation engine (Playwright) is a parameter. Its state is \<open>'w\<close>. An
  awaited call returns its outcome, the page events whose listeners ran while the daemon
  was suspended in the call, and the engine's new state. \<^verbatim>\<open>page.url()\<close> and
  \<^verbatim>\<open>browser.isConnected()\<close> are synchronous reads; \<^verbatim>\<open>page.on\<close> registers a listener.
  \<^verbatim>\<open>page.goto\<close> takes the address and the options object of lines 97 and 202.
\<close>

record goto_options =
  waitUntil :: string
  timeout :: int

record 'w engine =
  launch :: "'w \<Rightarrow> (exn + handle) \<times> page_event list \<times> 'w"
  newContext :: "handle \<Rightarrow> 'w \<Rightarrow> (exn + handle) \<times> page_event list \<times> 'w"
  newPage :: "handle \<Rightarrow> 'w \<Rightarrow> (exn + handle) \<times> page_event list \<times> 'w"
  evaluateScreen :: "handle \<Rightarrow> 'w \<Rightarrow> (exn + screen_size) \<times> page_event list \<times> 'w"
  evaluate :: "handle \<Rightarrow> string option \<Rightarrow> 'w \<Rightarrow> (exn + jsvalue) \<times> page_event list \<times> 'w"
  setViewportSize :: "handle \<Rightarrow> int option \<Rightarrow> int option \<Rightarrow> 'w \<Rightarrow> (exn + unit) \<times> page_event list \<times> 'w"
  goto :: "handle \<Rightarrow> string option \<Rightarrow> goto_options \<Rightarrow> 'w \<Rightarrow> (exn + unit) \<times> page_event list \<times> 'w"
  title :: "handle \<Rightarrow> 'w \<Rightarrow> (exn + string) \<times> page_event list \<times> 'w"
  page_url :: "handle \<Rightarrow> 'w \<Rightarrow> string"
  isConnected :: "handle \<Rightarrow> 'w \<Rightarrow> bool"
  close :: "handle \<Rightarrow> 'w \<Rightarrow> (exn + unit) \<times> page_event list \<times> 'w"
  pageOn :: "handle \<Rightarrow> string \<Rightarrow> 'w \<Rightarrow> 'w"

text \<open>
  What both programs have: the three channel files (lines 13-15 of the daemon, 10-12 of
  the client), the terminal, and the exit status once the process has ended.
  File-system calls are taken not to fail.
\<close>

record process =
  COMMAND_FILE :: "string option"
  RESULT_FILE :: "string option"
  READY_FILE :: "string option"
  stdio :: "line list"
  exitCode :: "nat option"

text \<open>
  The daemon adds its module-level variables (lines 17-20), the engine's state, and
  whether the polling interval of \<^verbatim>\<open>watchForCommands\<close> is installed.
  \<^verbatim>\<open>context\<close> is spelled \<open>ctx\<close>.
\<close>

record 'w daemon = process +
  browser :: "handle option"
  ctx :: "handle option"
  page :: "handle option"
  consoleLogs :: "log_entry list"
  isRestarting :: bool
  lastURL :: string
  world :: 'w
  watching :: bool

section \<open>The daemon\<close>

definition say :: "stream \<Rightarrow> outarg list \<Rightarrow> 'a process_scheme \<Rightarrow> 'a process_scheme" where
  "say st args s = s\<lparr>stdio := stdio s @ [(st, args)]\<rparr>"

text \<open>\<^verbatim>\<open>String.prototype.includes\<close> (\<open>includes\<close> is reserved in Isabelle).\<close>

primrec includes_str :: "string \<Rightarrow> string \<Rightarrow> bool" where
  "includes_str [] pat = (pat = [])"
| "includes_str (c # cs) pat = (prefix pat (c # cs) \<or> includes_str cs pat)"

text \<open>\<^verbatim>\<open>toUpperCase\<close> on the ASCII letters of a console message type.\<close>

definition toUpperCase :: "string \<Rightarrow> string" where
  "toUpperCase = map (\<lambda>c. if 97 \<le> (of_char c :: nat) \<and> (of_char c :: nat) \<le> 122
                           then char_of ((of_char c :: nat) - 32) else c)"

definition prefix_of :: "string \<Rightarrow> string" where
  "prefix_of ty =
     (if ty = ''log'' then ''LOG''
      else if ty = ''info'' then ''INFO''
      else if ty = ''warn'' then ''WARN''
      else if ty = ''error'' then ''ERROR''
      else if ty = ''debug'' then ''DEBUG''
      else ''MSG'')"

text \<open>The two listeners of \<^verbatim>\<open>setupPageListeners\<close> (lines 112-134).\<close>

fun on_event :: "'w daemon \<Rightarrow> page_event \<Rightarrow> 'w daemon" where
  "on_event s (ConsoleMsg ty txt loc) =
     say Stdout [Str (prefix_of ty @ '' ['' @ toUpperCase ty @ ''] '' @ txt)]
       (s\<lparr>consoleLogs := consoleLogs s @
            [\<lparr>le_type = ty, le_text = txt, le_location = Some loc, le_stack = None\<rparr>]\<rparr>)"
| "on_event s (PageError msg stack) =
     (let s1 = say Stdout [Str ''[PAGE ERROR]'', Str msg] s
      in s1\<lparr>consoleLogs := consoleLogs s1 @
            [\<lparr>le_type = ''pageerror'', le_text = msg, le_location = None, le_stack = stack\<rparr>]\<rparr>)"

text \<open>
  \<^verbatim>\<open>await\<close> of an engine call: the engine moves on, and the listeners run on the events
  delivered meanwhile, in order.
\<close>

definition await :: "('w \<Rightarrow> 'a \<times> page_event list \<times> 'w) \<Rightarrow> 'w daemon \<Rightarrow> 'a \<times> 'w daemon" where
  "await call s =
     (case call (world s) of (r, evs, w) \<Rightarrow> (r, foldl on_event (s\<lparr>world := w\<rparr>) evs))"

text \<open>Reading a property of \<^verbatim>\<open>undefined\<close> throws a TypeError.\<close>

definition undefined_read :: "string \<Rightarrow> exn" where
  "undefined_read prop = ''Cannot read properties of undefined (reading '' @ [CHR 0x27] @ prop @ [CHR 0x27] @ '')''"

definition setupPageListeners :: "'w engine \<Rightarrow> 'w daemon \<Rightarrow> (exn + unit) \<times> 'w daemon" where
  "setupPageListeners E s =
     (case page s of
        None \<Rightarrow> (Inl (undefined_read ''on''), s)
      | Some p \<Rightarrow> (Inr (), s\<lparr>world := pageOn E p ''pageerror'' (pageOn E p ''console'' (world s))\<rparr>))"

text \<open>\<^verbatim>\<open>startBrowser\<close> (lines 22-60).\<close>

definition startBrowser :: "'w engine \<Rightarrow> 'w daemon \<Rightarrow> (exn + unit) \<times> 'w daemon" where
  "startBrowser E s0 =
     (case await (launch E) (say Stdout [Str ''Starting browser...''] s0) of
        (Inl e, s1) \<Rightarrow> (Inl e, s1)
      | (Inr b, s1) \<Rightarrow>
     (case await (newContext E b) (s1\<lparr>browser := Some b\<rparr>) of
        (Inl e, s2) \<Rightarrow> (Inl e, s2)
      | (Inr c, s2) \<Rightarrow>
     (case await (newPage E c) (s2\<lparr>ctx := Some c\<rparr>) of
        (Inl e, s3) \<Rightarrow> (Inl e, s3)
      | (Inr p, s3) \<Rightarrow>
     (case await (evaluateScreen E p) (s3\<lparr>page := Some p\<rparr>) of
        (Inl e, s4) \<Rightarrow> (Inl e, s4)
      | (Inr sz, s4) \<Rightarrow>
     (case await (setViewportSize E p (Some (sc_width sz)) (Some (sc_height sz)))
             (say Stdout [Str ''Window inner:'', Num (sc_innerWidth sz), Str ''x'', Num (sc_innerHeight sz)]
               (say Stdout [Str ''Screen available:'', Num (sc_width sz), Str ''x'', Num (sc_height sz)] s4)) of
        (Inl e, s5) \<Rightarrow> (Inl e, s5)
      | (Inr _, s5) \<Rightarrow>
          setupPageListeners E
            (say Stdout [Str '''']
              (say Stdout [Str ''Viewport set to screen size''] s5)))))))"

text \<open>
  The usability check at the head of \<^verbatim>\<open>ensureBrowserReady\<close> (lines 63-83): the value
  of the local \<^verbatim>\<open>needsRestart\<close>.
\<close>

definition needsRestart :: "'w engine \<Rightarrow> 'w daemon \<Rightarrow> bool \<times> 'w daemon" where
  "needsRestart E s =
     (case (case browser s of None \<Rightarrow> True | Some b \<Rightarrow> \<not> isConnected E b (world s), page s) of
        (False, Some p) \<Rightarrow>
          (case await (title E p) s of
             (Inl _, s1) \<Rightarrow> (True, s1)
           | (Inr _, s1) \<Rightarrow> (False, s1))
      | _ \<Rightarrow> (True, s))"

text \<open>
  The \<^verbatim>\<open>try\<close> block of the restart (lines 89-100), in its three steps: closing the
  old browser with the failure swallowed (lines 89-91), \<^verbatim>\<open>startBrowser\<close> (line 92),
  and going back to \<^verbatim>\<open>lastURL\<close> with
  \<^verbatim>\<open>page.goto(lastURL, { waitUntil: 'networkidle', timeout: 30000 })\<close> (lines 95-100).
\<close>

definition teardown :: "'w engine \<Rightarrow> 'w daemon \<Rightarrow> 'w daemon" where
  "teardown E s =
     (case browser s of
        None \<Rightarrow> s
      | Some b \<Rightarrow> if isConnected E b (world s) then snd (await (close E b) s) else s)"

definition restore :: "'w engine \<Rightarrow> 'w daemon \<Rightarrow> (exn + unit) \<times> 'w daemon" where
  "restore E s =
     (if lastURL s \<noteq> [] \<and> lastURL s \<noteq> ''about:blank'' then
        (case page s of
           None \<Rightarrow> (Inl (undefined_read ''goto''),
                     say Stdout [Str (''Restoring last URL: '' @ lastURL s)] s)
         | Some p \<Rightarrow>
             (case await (goto E p (Some (lastURL s)) \<lparr>waitUntil = ''networkidle'', timeout = 30000\<rparr>)
                     (say Stdout [Str (''Restoring last URL: '' @ lastURL s)] s) of
                (Inl e, s1) \<Rightarrow> (Inr (), say Stdout [Str (''Failed to restore URL: '' @ e)] s1)
              | (Inr _, s1) \<Rightarrow> (Inr (), s1)))
      else (Inr (), s))"

definition restart_try :: "'w engine \<Rightarrow> 'w daemon \<Rightarrow> (exn + unit) \<times> 'w daemon" where
  "restart_try E s =
     (case startBrowser E (teardown E s) of
        (Inl e, s1) \<Rightarrow> (Inl e, s1)
      | (Inr _, s1) \<Rightarrow> restore E s1)"

text \<open>\<^verbatim>\<open>ensureBrowserReady\<close> (lines 62-108).\<close>

definition ensureBrowserReady :: "'w engine \<Rightarrow> 'w daemon \<Rightarrow> (exn + unit) \<times> 'w daemon" where
  "ensureBrowserReady E s =
     (case needsRestart E s of
        (False, s1) \<Rightarrow> (Inr (), s1)
      | (True, s1) \<Rightarrow>
          (case restart_try E
                  ((say Stdout [Str ''Browser/page closed, restarting...''] s1)\<lparr>isRestarting := True\<rparr>) of
             (Inl e, s2) \<Rightarrow>
               (Inl e, (say Stderr [Str ''Failed to restart browser:'', ErrObj e] s2)\<lparr>isRestarting := False\<rparr>)
           | (Inr _, s2) \<Rightarrow> (Inr (), s2\<lparr>isRestarting := False\<rparr>)))"

text \<open>\<^verbatim>\<open>writeResult\<close> (lines 257-259) and \<^verbatim>\<open>cleanup\<close> (lines 261-267).\<close>

definition writeResult :: "json \<Rightarrow> response \<Rightarrow> 'w daemon \<Rightarrow> 'w daemon" where
  "writeResult J r s = s\<lparr>RESULT_FILE := Some (stringifyResult J r)\<rparr>"

definition cleanup :: "'w daemon \<Rightarrow> 'w daemon" where
  "cleanup s = s\<lparr>COMMAND_FILE := None, RESULT_FILE := None, READY_FILE := None\<rparr>"

text \<open>
  The cases of the \<^verbatim>\<open>switch\<close> in \<^verbatim>\<open>executeCommandInner\<close> that call the engine
  (lines 201-209, 211-217, 231-238, 240-250). In \<^verbatim>\<open>page.goto(data.url, ...)\<close> the read
  of \<^verbatim>\<open>page.goto\<close> comes before the read of \<^verbatim>\<open>data.url\<close>; in the object literals
  \<^verbatim>\<open>page.url()\<close> is read before \<^verbatim>\<open>page.title()\<close> is awaited and
  \<^verbatim>\<open>consoleLogs.length\<close> after.
\<close>

definition case_navigate ::
    "'w engine \<Rightarrow> json \<Rightarrow> command \<Rightarrow> 'w daemon \<Rightarrow> (exn + unit) \<times> 'w daemon" where
  "case_navigate E J c s =
     (case page s of
        None \<Rightarrow> (Inl (undefined_read ''goto''), s)
      | Some p \<Rightarrow>
     (case data c of
        None \<Rightarrow> (Inl (undefined_read ''url''), s)
      | Some d \<Rightarrow>
     (case await (goto E p (url d) \<lparr>waitUntil = ''networkidle'', timeout = 30000\<rparr>) s of
        (Inl e, s1) \<Rightarrow> (Inl e, s1)
      | (Inr _, s1) \<Rightarrow>
     (case await (title E p) (s1\<lparr>lastURL := page_url E p (world s1)\<rparr>) of
        (Inl e, s2) \<Rightarrow> (Inl e, s2)
      | (Inr t, s2) \<Rightarrow>
          (Inr (), writeResult J (NavigateOk (page_url E p (world s1)) t) s2)))))"

definition case_exec ::
    "'w engine \<Rightarrow> json \<Rightarrow> command \<Rightarrow> 'w daemon \<Rightarrow> (exn + unit) \<times> 'w daemon" where
  "case_exec E J c s =
     (case page s of
        None \<Rightarrow> (Inl (undefined_read ''evaluate''), s)
      | Some p \<Rightarrow>
     (case data c of
        None \<Rightarrow> (Inl (undefined_read ''code''), s)
      | Some d \<Rightarrow>
     (case await (evaluate E p (code d)) s of
        (Inl e, s1) \<Rightarrow> (Inl e, s1)
      | (Inr v, s1) \<Rightarrow> (Inr (), writeResult J (ExecOk v) s1))))"

definition case_status ::
    "'w engine \<Rightarrow> json \<Rightarrow> 'w daemon \<Rightarrow> (exn + unit) \<times> 'w daemon" where
  "case_status E J s =
     (case page s of
        None \<Rightarrow> (Inl (undefined_read ''url''), s)
      | Some p \<Rightarrow>
     (case await (title E p) s of
        (Inl e, s1) \<Rightarrow> (Inl e, s1)
      | (Inr t, s1) \<Rightarrow>
          (Inr (), writeResult J (StatusOk (page_url E p (world s)) t (length (consoleLogs s1))) s1)))"

definition case_resize ::
    "'w engine \<Rightarrow> json \<Rightarrow> command \<Rightarrow> 'w daemon \<Rightarrow> (exn + unit) \<times> 'w daemon" where
  "case_resize E J c s =
     (case page s of
        None \<Rightarrow> (Inl (undefined_read ''setViewportSize''), s)
      | Some p \<Rightarrow>
     (case data c of
        None \<Rightarrow> (Inl (undefined_read ''width''), s)
      | Some d \<Rightarrow>
     (case await (setViewportSize E p (width d) (height d)) s of
        (Inl e, s1) \<Rightarrow> (Inl e, s1)
      | (Inr _, s1) \<Rightarrow> (Inr (), writeResult J (ResizeOk (width d) (height d)) s1))))"

text \<open>\<^verbatim>\<open>executeCommandInner\<close> (lines 197-255).\<close>

definition executeCommandInner ::
    "'w engine \<Rightarrow> json \<Rightarrow> command \<Rightarrow> 'w daemon \<Rightarrow> (exn + unit) \<times> 'w daemon" where
  "executeCommandInner E J c s =
     (if action c = Some ''navigate'' then case_navigate E J c s
      else if action c = Some ''exec'' then case_exec E J c s
      else if action c = Some ''console'' then
        (Inr (), writeResult J (ConsoleOk (consoleLogs s)) s)
      else if action c = Some ''console-clear'' then
        (Inr (), writeResult J ClearOk (s\<lparr>consoleLogs := []\<rparr>))
      else if action c = Some ''status'' then case_status E J s
      else if action c = Some ''resize'' then case_resize E J c s
      else
        (Inr (), writeResult J
           (ErrorResp (''Unknown command: '' @ (case action c of None \<Rightarrow> ''undefined'' | Some a \<Rightarrow> a))) s))"

text \<open>The test of line 183.\<close>

definition session_lost :: "exn \<Rightarrow> bool" where
  "session_lost msg \<longleftrightarrow> includes_str msg ''closed'' \<or> includes_str msg ''disconnected''"

text \<open>\<^verbatim>\<open>executeCommand\<close> (lines 178-195).\<close>

definition executeCommand :: "'w engine \<Rightarrow> json \<Rightarrow> command \<Rightarrow> 'w daemon \<Rightarrow> 'w daemon" where
  "executeCommand E J c s =
     (case executeCommandInner E J c s of
        (Inr _, s1) \<Rightarrow> s1
      | (Inl err, s1) \<Rightarrow>
          if session_lost err then
            (case ensureBrowserReady E (say Stdout [Str ''Command failed, restarting browser...''] s1) of
               (Inl retryErr, s2) \<Rightarrow> writeResult J (ErrorResp retryErr) s2
             | (Inr _, s2) \<Rightarrow>
                 (case executeCommandInner E J c s2 of
                    (Inl retryErr, s3) \<Rightarrow> writeResult J (ErrorResp retryErr) s3
                  | (Inr _, s3) \<Rightarrow> s3))
          else writeResult J (ErrorResp err) s1)"

text \<open>The callback that \<^verbatim>\<open>watchForCommands\<close> runs every 100 ms (lines 161-175).\<close>

definition poll :: "'w engine \<Rightarrow> json \<Rightarrow> 'w daemon \<Rightarrow> 'w daemon" where
  "poll E J s =
     (case COMMAND_FILE s of
        None \<Rightarrow> s
      | Some commandData \<Rightarrow>
          (case parseCommand J commandData of
             Inl e \<Rightarrow>
               writeResult J (ErrorResp e)
                 (say Stderr [Str ''Command processing error:'', Str e] (s\<lparr>COMMAND_FILE := None\<rparr>))
           | Inr c \<Rightarrow> executeCommand E J c (s\<lparr>COMMAND_FILE := None\<rparr>)))"

text \<open>A firing of the interval: only once it is installed and while the process lives.\<close>

definition tick :: "'w engine \<Rightarrow> json \<Rightarrow> 'w daemon \<Rightarrow> 'w daemon" where
  "tick E J s = (if watching s \<and> exitCode s = None then poll E J s else s)"

text \<open>
  \<^verbatim>\<open>startDaemon\<close> (lines 137-158). The \<^verbatim>\<open>SIGINT\<close> handler it registers is not
  part of the model: no signal is delivered.
\<close>

definition startDaemon :: "'w engine \<Rightarrow> 'w daemon \<Rightarrow> (exn + unit) \<times> 'w daemon" where
  "startDaemon E s =
     (case startBrowser E s of
        (Inl e, s1) \<Rightarrow> (Inl e, s1)
      | (Inr _, s1) \<Rightarrow>
          (Inr (), (say Stdout [Str '''']
                     (say Stdout [Str ''Listening for commands...'']
                       (s1\<lparr>READY_FILE := Some ''ready''\<rparr>)))\<lparr>watching := True\<rparr>))"

text \<open>The module body (lines 17-20 and 269-277), from the files found at start.\<close>

definition initial ::
    "'w \<Rightarrow> string option \<Rightarrow> string option \<Rightarrow> string option \<Rightarrow> 'w daemon" where
  "initial w cf rf rdy =
     \<lparr>COMMAND_FILE = cf, RESULT_FILE = rf, READY_FILE = rdy, stdio = [], exitCode = None,
      browser = None, ctx = None, page = None, consoleLogs = [], isRestarting = False,
      lastURL = ''about:blank'', world = w, watching = False\<rparr>"

definition boot :: "'w engine \<Rightarrow> 'w daemon \<Rightarrow> 'w daemon" where
  "boot E s =
     (case startDaemon E (cleanup s) of
        (Inl e, s1) \<Rightarrow> (cleanup (say Stderr [Str ''Fatal error:'', ErrObj e] s1))\<lparr>exitCode := Some 1\<rparr>
      | (Inr _, s1) \<Rightarrow> s1)"

section \<open>The client\<close>

text \<open>Reading a field of the decoded Response; an absent field reads as \<^verbatim>\<open>undefined\<close>.\<close>

fun r_success :: "response \<Rightarrow> bool" where
  "r_success (ErrorResp e) = False"
| "r_success r = True"

fun r_error :: "response \<Rightarrow> string option" where
  "r_error (ErrorResp e) = Some e"
| "r_error r = None"

fun r_url :: "response \<Rightarrow> string option" where
  "r_url (NavigateOk u t) = Some u"
| "r_url (StatusOk u t n) = Some u"
| "r_url r = None"

fun r_title :: "response \<Rightarrow> string option" where
  "r_title (NavigateOk u t) = Some t"
| "r_title (StatusOk u t n) = Some t"
| "r_title r = None"

fun r_result :: "response \<Rightarrow> jsvalue" where
  "r_result (ExecOk v) = v"
| "r_result r = JUndefined"

fun r_logs :: "response \<Rightarrow> log_entry list option" where
  "r_logs (ConsoleOk ls) = Some ls"
| "r_logs r = None"

fun r_consoleLogsCount :: "response \<Rightarrow> nat option" where
  "r_consoleLogsCount (StatusOk u t n) = Some n"
| "r_consoleLogsCount r = None"

fun r_width :: "response \<Rightarrow> int option" where
  "r_width (ResizeOk w h) = w"
| "r_width r = None"

fun r_height :: "response \<Rightarrow> int option" where
  "r_height (ResizeOk w h) = h"
| "r_height r = None"

definition optstr :: "string option \<Rightarrow> outarg" where
  "optstr x = (case x of None \<Rightarrow> Undef | Some v \<Rightarrow> Str v)"

definition optnum :: "int option \<Rightarrow> outarg" where
  "optnum x = (case x of None \<Rightarrow> Undef | Some v \<Rightarrow> Num v)"

text \<open>A number inside a template string or a string concatenation.\<close>

fun show_nat :: "nat \<Rightarrow> string" where
  "show_nat n =
     (if n < 10 then [char_of (48 + n)]
      else show_nat (n div 10) @ [char_of (48 + n mod 10)])"

declare show_nat.simps [simp del]

text \<open>\<^verbatim>\<open>checkDaemonRunning\<close> (lines 14-20): the process state after it, ended or not.\<close>

definition checkDaemonRunning :: "process \<Rightarrow> process" where
  "checkDaemonRunning s =
     (if READY_FILE s = None then
        (say Stderr [Str ''Start it with: node browser-daemon.js'']
          (say Stderr [Str ''Browser daemon not running!''] s))\<lparr>exitCode := Some 1\<rparr>
      else s)"

text \<open>
  How the promise returned by \<^verbatim>\<open>sendCommand\<close> ends: resolved with the decoded
  Response, rejected with the timeout error, or never settled because \<^verbatim>\<open>JSON.parse\<close>
  threw inside the timer callback, which ends the process.
\<close>

datatype outcome = Resolved response | Rejected exn | Crashed exn

text \<open>
  The interval callback of \<^verbatim>\<open>sendCommand\<close> (lines 36-46), from its \<open>k\<close>-th firing on.
  The timer is taken as exact: the \<open>k\<close>-th firing happens 50\<open>k\<close> ms after \<open>startTime\<close>.
  \<open>daemon_writes k\<close> is what the daemon, another process, has written to the result
  file since the previous firing, if anything; for \<open>k = 1\<close>, since the request was
  written.
\<close>

definition arrive :: "string option \<Rightarrow> process \<Rightarrow> process" where
  "arrive w s = (case w of None \<Rightarrow> s | Some txt \<Rightarrow> s\<lparr>RESULT_FILE := Some txt\<rparr>)"

function wait_result :: "json \<Rightarrow> (nat \<Rightarrow> string option) \<Rightarrow> nat \<Rightarrow> process \<Rightarrow> outcome \<times> process" where
  "wait_result J daemon_writes k s =
     (case RESULT_FILE (arrive (daemon_writes k) s) of
        Some txt \<Rightarrow>
          (case parseResult J txt of
             Inl e \<Rightarrow> (Crashed e, arrive (daemon_writes k) s)
           | Inr r \<Rightarrow> (Resolved r, (arrive (daemon_writes k) s)\<lparr>RESULT_FILE := None\<rparr>))
      | None \<Rightarrow>
          if 50 * k > 30000 then (Rejected ''Command timeout'', arrive (daemon_writes k) s)
          else wait_result J daemon_writes (Suc k) (arrive (daemon_writes k) s))"
  by pat_completeness auto
termination
  by (relation "measure (\<lambda>(J, dw, k, s). 601 - k)") auto

declare wait_result.simps [simp del]

text \<open>
  \<^verbatim>\<open>sendCommand\<close> (lines 22-48). The deletion of the old result (lines 24-26) and the
  writing of the command (line 29) are two file-system calls, and the daemon can write
  the result file between them: \<open>daemon_writes 0\<close> is what it writes there, if anything.
\<close>

definition sendCommand :: "json \<Rightarrow> (nat \<Rightarrow> string option) \<Rightarrow> command \<Rightarrow> process \<Rightarrow> outcome \<times> process" where
  "sendCommand J daemon_writes cmd s =
     wait_result J daemon_writes 1
       ((arrive (daemon_writes 0) (if RESULT_FILE s \<noteq> None then s\<lparr>RESULT_FILE := None\<rparr> else s))
          \<lparr>COMMAND_FILE := Some (stringifyCommand J cmd)\<rparr>)"

text \<open>What each branch of \<^verbatim>\<open>main\<close> prints for a collected Response.\<close>

definition report_error :: "response \<Rightarrow> process \<Rightarrow> process" where
  "report_error r s = say Stderr [Str ''Error:'', optstr (r_error r)] s"

definition report_navigate :: "response \<Rightarrow> process \<Rightarrow> (exn + unit) \<times> process" where
  "report_navigate r s =
     (if r_success r then
        (Inr (), say Stdout [Str ''Title:'', optstr (r_title r)]
                   (say Stdout [Str ''URL:'', optstr (r_url r)]
                     (say Stdout [Str ''Navigated successfully!''] s)))
      else (Inr (), report_error r s))"

definition report_exec :: "response \<Rightarrow> process \<Rightarrow> (exn + unit) \<times> process" where
  "report_exec r s =
     (if r_success r then
        (Inr (), say Stdout [case r_result r of JObject j \<Rightarrow> Json (JObject j) | v \<Rightarrow> Val v]
                   (say Stdout [Str ''Result:''] s))
      else (Inr (), report_error r s))"

definition client_prefix_of :: "string \<Rightarrow> string" where
  "client_prefix_of ty =
     (if ty = ''log'' then ''LOG''
      else if ty = ''info'' then ''INFO''
      else if ty = ''warn'' then ''WARN''
      else if ty = ''error'' then ''ERROR''
      else if ty = ''debug'' then ''DEBUG''
      else if ty = ''pageerror'' then ''PAGEERROR''
      else ''MSG'')"

definition print_log :: "process \<Rightarrow> log_entry \<Rightarrow> process" where
  "print_log s l =
     (case le_location l of
        None \<Rightarrow> say Stdout [Str (client_prefix_of (le_type l) @ '' ['' @ toUpperCase (le_type l) @ ''] '' @ le_text l)] s
      | Some loc \<Rightarrow>
          if loc_url loc \<noteq> [] then
            say Stdout [Str (''   '' @ [CHR 0xE2, CHR 0x94, CHR 0x94, CHR 0xE2, CHR 0x94, CHR 0x80] @ '' ''
                              @ loc_url loc @ '':'' @ show_nat (lineNumber loc))]
              (say Stdout [Str (client_prefix_of (le_type l) @ '' ['' @ toUpperCase (le_type l) @ ''] '' @ le_text l)] s)
          else say Stdout [Str (client_prefix_of (le_type l) @ '' ['' @ toUpperCase (le_type l) @ ''] '' @ le_text l)] s)"

definition report_console :: "response \<Rightarrow> process \<Rightarrow> (exn + unit) \<times> process" where
  "report_console r s =
     (if r_success r then
        (case r_logs r of
           None \<Rightarrow> (Inl (undefined_read ''length''), s)
         | Some ls \<Rightarrow>
             (Inr (), foldl print_log
                        (say Stdout [Str '''']
                          (say Stdout [Str (''Console logs ('' @ show_nat (length ls) @ '' entries):'')] s))
                        ls))
      else (Inr (), report_error r s))"

definition report_clear :: "response \<Rightarrow> process \<Rightarrow> (exn + unit) \<times> process" where
  "report_clear r s = (Inr (), say Stdout [Str ''Console logs cleared''] s)"

definition report_status :: "response \<Rightarrow> process \<Rightarrow> (exn + unit) \<times> process" where
  "report_status r s =
     (if r_success r then
        (Inr (), say Stdout [Str ''Console logs:'', optnum (map_option int (r_consoleLogsCount r))]
                   (say Stdout [Str ''Current title:'', optstr (r_title r)]
                     (say Stdout [Str ''Current URL:'', optstr (r_url r)]
                       (say Stdout [Str ''Browser daemon is running''] s))))
      else (Inr (), report_error r s))"

definition report_resize :: "response \<Rightarrow> process \<Rightarrow> (exn + unit) \<times> process" where
  "report_resize r s =
     (if r_success r then
        (Inr (), say Stdout [Str ''New size:'', optnum (r_width r), Str ''x'', optnum (r_height r)]
                   (say Stdout [Str ''Viewport resized!''] s))
      else (Inr (), report_error r s))"

text \<open>
  What follows \<^verbatim>\<open>await sendCommand(command)\<close> inside the \<^verbatim>\<open>try\<close> of \<^verbatim>\<open>main\<close>: the
  branch's printing, the \<^verbatim>\<open>catch\<close> of lines 176-179, and the end of the process. A
  \<^verbatim>\<open>main\<close> that returns without \<^verbatim>\<open>process.exit\<close> ends the process with status 0; an
  exception that nothing catches ends it with status 1.
\<close>

definition settle ::
    "(response \<Rightarrow> process \<Rightarrow> (exn + unit) \<times> process) \<Rightarrow> outcome \<times> process \<Rightarrow> process" where
  "settle report os =
     (case os of
        (Resolved r, s1) \<Rightarrow>
          (case report r s1 of
             (Inl e, s2) \<Rightarrow> (say Stderr [Str ''Error:'', Str e] s2)\<lparr>exitCode := Some 1\<rparr>
           | (Inr _, s2) \<Rightarrow> s2\<lparr>exitCode := Some 0\<rparr>)
      | (Rejected e, s1) \<Rightarrow> (say Stderr [Str ''Error:'', Str e] s1)\<lparr>exitCode := Some 1\<rparr>
      | (Crashed e, s1) \<Rightarrow> (say Stderr [ErrObj e] s1)\<lparr>exitCode := Some 1\<rparr>)"

definition arg :: "string list \<Rightarrow> nat \<Rightarrow> string option" where
  "arg args i = (if i < length args then Some (args ! i) else None)"

definition no_data :: cmd_data where
  "no_data = \<lparr>url = None, code = None, width = None, height = None\<rparr>"

definition usage :: "process \<Rightarrow> process" where
  "usage s =
     say Stdout [Str ''  node browser-client.js status'']
    (say Stdout [Str ''  node browser-client.js resize <width> <height>'']
    (say Stdout [Str ''  node browser-client.js console-clear'']
    (say Stdout [Str ''  node browser-client.js console'']
    (say Stdout [Str (''  node browser-client.js exec '' @ [CHR 0x22] @ ''javascript code'' @ [CHR 0x22])]
    (say Stdout [Str ''  node browser-client.js navigate <url>'']
    (say Stdout [Str ''Usage:'']
    (say Stdout [Str '''']
    (say Stdout [Str ''Browser Daemon Client''] s))))))))"

text \<open>
  \<^verbatim>\<open>main\<close> (lines 50-180). \<open>args\<close> is \<^verbatim>\<open>process.argv.slice(2)\<close>; \<^verbatim>\<open>parseInt\<close> is a
  parameter, \<open>None\<close> standing for \<^verbatim>\<open>NaN\<close>.
\<close>

definition main ::
    "json \<Rightarrow> (string option \<Rightarrow> int option) \<Rightarrow> (nat \<Rightarrow> string option) \<Rightarrow> string list \<Rightarrow> process \<Rightarrow> process" where
  "main J parseInt daemon_writes args s0 =
     (let s = checkDaemonRunning s0 in
      if exitCode s \<noteq> None then s
      else if arg args 0 = Some ''navigate'' then
        (if arg args 1 = None \<or> arg args 1 = Some [] then
           (say Stderr [Str ''Usage: node browser-client.js navigate <url>''] s)\<lparr>exitCode := Some 1\<rparr>
         else settle report_navigate
                (sendCommand J daemon_writes
                   \<lparr>action = Some ''navigate'', data = Some (no_data\<lparr>url := arg args 1\<rparr>)\<rparr> s))
      else if arg args 0 = Some ''exec'' then
        (if arg args 1 = None \<or> arg args 1 = Some [] then
           (say Stderr [Str (''Usage: node browser-client.js exec '' @ [CHR 0x22] @ ''javascript code'' @ [CHR 0x22])] s)
             \<lparr>exitCode := Some 1\<rparr>
         else settle report_exec
                (sendCommand J daemon_writes
                   \<lparr>action = Some ''exec'', data = Some (no_data\<lparr>code := arg args 1\<rparr>)\<rparr> s))
      else if arg args 0 = Some ''console'' then
        settle report_console
          (sendCommand J daemon_writes \<lparr>action = Some ''console'', data = Some no_data\<rparr> s)
      else if arg args 0 = Some ''console-clear'' then
        settle report_clear
          (sendCommand J daemon_writes \<lparr>action = Some ''console-clear'', data = Some no_data\<rparr> s)
      else if arg args 0 = Some ''status'' then
        settle report_status
          (sendCommand J daemon_writes \<lparr>action = Some ''status'', data = Some no_data\<rparr> s)
      else if arg args 0 = Some ''resize'' then
        (if parseInt (arg args 1) = None \<or> parseInt (arg args 1) = Some 0
            \<or> parseInt (arg args 2) = None \<or> parseInt (arg args 2) = Some 0 then
           (say Stderr [Str ''Usage: node browser-client.js resize <width> <height>''] s)\<lparr>exitCode := Some 1\<rparr>
         else settle report_resize
                (sendCommand J daemon_writes
                   \<lparr>action = Some ''resize'',
                    data = Some (no_data\<lparr>width := parseInt (arg args 1), height := parseInt (arg args 2)\<rparr>)\<rparr> s))
      else (usage s)\<lparr>exitCode := Some 1\<rparr>)"

text \<open>
  The Request that \<^verbatim>\<open>main\<close> sends for given arguments (lines 66, 84, 100, 126, 132 and
  152), or \<open>None\<close> where it prints a usage message instead (lines 62-65, 80-83, 148-151
  and 163-173).
\<close>

definition request_of :: "(string option \<Rightarrow> int option) \<Rightarrow> string list \<Rightarrow> command option" where
  "request_of parseInt args =
     (if arg args 0 = Some ''navigate'' then
        (if arg args 1 = None \<or> arg args 1 = Some [] then None
         else Some \<lparr>action = Some ''navigate'', data = Some (no_data\<lparr>url := arg args 1\<rparr>)\<rparr>)
      else if arg args 0 = Some ''exec'' then
        (if arg args 1 = None \<or> arg args 1 = Some [] then None
         else Some \<lparr>action = Some ''exec'', data = Some (no_data\<lparr>code := arg args 1\<rparr>)\<rparr>)
      else if arg args 0 = Some ''console'' then
        Some \<lparr>action = Some ''console'', data = Some no_data\<rparr>
      else if arg args 0 = Some ''console-clear'' then
        Some \<lparr>action = Some ''console-clear'', data = Some no_data\<rparr>
      else if arg args 0 = Some ''status'' then
        Some \<lparr>action = Some ''status'', data = Some no_data\<rparr>
      else if arg args 0 = Some ''resize'' then
        (if parseInt (arg args 1) = None \<or> parseInt (arg args 1) = Some 0
            \<or> parseInt (arg args 2) = None \<or> parseInt (arg args 2) = Some 0 then None
         else Some \<lparr>action = Some ''resize'',
                    data = Some (no_data\<lparr>width := parseInt (arg args 1), height := parseInt (arg args 2)\<rparr>)\<rparr>)
      else None)"

section \<open>A test engine and a test codec\<close>

text \<open>
  A small engine on which the functions above can be run: a browser that
  \<open>sim_launch\<close> starts unless \<open>can_launch\<close> is off, that the user can close
  (\<open>alive\<close>), whose page is at the address \<open>at\<close>, and that loads exactly the addresses
  in \<open>sites\<close>. A handle is the number of the launch that made it; a handle of an earlier
  launch is dead. \<open>evals\<close> counts the calls of \<^verbatim>\<open>page.evaluate(code)\<close>.
\<close>

record sim =
  alive :: bool
  can_launch :: bool
  at :: string
  launches :: nat
  evals :: nat
  sites :: "string list"

definition live :: "handle \<Rightarrow> sim \<Rightarrow> bool" where
  "live h w \<longleftrightarrow> alive w \<and> h = launches w"

definition closed_msg :: exn where
  "closed_msg = ''Target page, context or browser has been closed''"

definition sim_launch :: "sim \<Rightarrow> (exn + handle) \<times> page_event list \<times> sim" where
  "sim_launch w =
     (if can_launch w
      then (Inr (Suc (launches w)), [],
            w\<lparr>alive := True, launches := Suc (launches w), at := ''about:blank''\<rparr>)
      else (Inl ''Failed to launch chrome'', [], w))"

definition sim_evaluate :: "handle \<Rightarrow> string option \<Rightarrow> sim \<Rightarrow> (exn + jsvalue) \<times> page_event list \<times> sim" where
  "sim_evaluate p c w =
     (if \<not> live p w then (Inl closed_msg, [], w\<lparr>evals := Suc (evals w)\<rparr>)
      else if c = Some ''boom()'' then
        (Inl ''page.evaluate: ReferenceError: boom is not defined'', [], w\<lparr>evals := Suc (evals w)\<rparr>)
      else if c = Some ''shut()'' then
        (Inl ''page.evaluate: Error: the shop is closed'', [], w\<lparr>evals := Suc (evals w)\<rparr>)
      else (Inr (JPrimitive ''42''), [], w\<lparr>evals := Suc (evals w)\<rparr>))"

definition sim_goto ::
    "handle \<Rightarrow> string option \<Rightarrow> goto_options \<Rightarrow> sim \<Rightarrow> (exn + unit) \<times> page_event list \<times> sim" where
  "sim_goto p u opts w =
     (if \<not> live p w then (Inl closed_msg, [], w)
      else case u of
        None \<Rightarrow> (Inl ''page.goto: url: expected string, got undefined'', [], w)
      | Some x \<Rightarrow>
          if x \<in> set (sites w)
          then (Inr (), [ConsoleMsg ''log'' (''loaded '' @ x) \<lparr>loc_url = x, lineNumber = 1, columnNumber = 1\<rparr>],
                w\<lparr>at := x\<rparr>)
          else (Inl (''page.goto: net::ERR_NAME_NOT_RESOLVED at '' @ x), [], w))"

definition sim_title :: "handle \<Rightarrow> sim \<Rightarrow> (exn + string) \<times> page_event list \<times> sim" where
  "sim_title p w = (if live p w then (Inr (''Title of '' @ at w), [], w) else (Inl closed_msg, [], w))"

definition sim_setViewportSize ::
    "handle \<Rightarrow> int option \<Rightarrow> int option \<Rightarrow> sim \<Rightarrow> (exn + unit) \<times> page_event list \<times> sim" where
  "sim_setViewportSize p x y w = (if live p w then (Inr (), [], w) else (Inl closed_msg, [], w))"

definition simE :: "sim engine" where
  "simE =
     \<lparr>launch = sim_launch,
      newContext = (\<lambda>b w. (Inr b, [], w)),
      newPage = (\<lambda>c w. (Inr c, [], w)),
      evaluateScreen = (\<lambda>p w. (Inr \<lparr>sc_width = 1920, sc_height = 1080, sc_innerWidth = 1920, sc_innerHeight = 969\<rparr>, [], w)),
      evaluate = sim_evaluate,
      setViewportSize = sim_setViewportSize,
      goto = sim_goto,
      title = sim_title,
      page_url = (\<lambda>p w. at w),
      isConnected = live,
      close = (\<lambda>b w. (Inr (), [], w\<lparr>alive := False\<rparr>)),
      pageOn = (\<lambda>p ev w. w)\<rparr>"

text \<open>A codec that knows a handful of texts, enough to run the two programs.\<close>

definition cmd :: "string \<Rightarrow> cmd_data \<Rightarrow> command" where
  "cmd a d = \<lparr>action = Some a, data = Some d\<rparr>"

definition sim_parseCommand :: "string \<Rightarrow> exn + command" where
  "sim_parseCommand txt =
     (if txt = ''status'' then Inr (cmd ''status'' no_data)
      else if txt = ''console'' then Inr (cmd ''console'' no_data)
      else if txt = ''console-clear'' then Inr (cmd ''console-clear'' no_data)
      else if prefix ''exec '' txt then Inr (cmd ''exec'' (no_data\<lparr>code := Some (drop 5 txt)\<rparr>))
      else if prefix ''navigate '' txt then Inr (cmd ''navigate'' (no_data\<lparr>url := Some (drop 9 txt)\<rparr>))
      else Inl ''Unexpected token in JSON at position 0'')"

definition sim_stringifyCommand :: "command \<Rightarrow> string" where
  "sim_stringifyCommand c =
     (case action c of None \<Rightarrow> [] | Some a \<Rightarrow> a) @
     (case data c of
        None \<Rightarrow> []
      | Some d \<Rightarrow>
          (case url d of
             Some u \<Rightarrow> '' '' @ u
           | None \<Rightarrow> (case code d of Some k \<Rightarrow> '' '' @ k | None \<Rightarrow> [])))"

definition sim_stringifyResult :: "response \<Rightarrow> string" where
  "sim_stringifyResult r =
     (case r of
        NavigateOk u t \<Rightarrow> ''at '' @ u
      | ExecOk v \<Rightarrow> ''value''
      | ConsoleOk ls \<Rightarrow> ''logs '' @ show_nat (length ls)
      | ClearOk \<Rightarrow> ''ok''
      | StatusOk u t n \<Rightarrow> ''status '' @ u
      | ResizeOk w h \<Rightarrow> ''resized''
      | ErrorResp e \<Rightarrow> ''error '' @ e)"

definition sim_parseResult :: "string \<Rightarrow> exn + response" where
  "sim_parseResult txt =
     (if txt = ''ok'' then Inr ClearOk
      else if txt = ''value'' then Inr (ExecOk (JPrimitive ''42''))
      else if txt = ''logs 0'' then Inr (ConsoleOk [])
      else if prefix ''error '' txt then Inr (ErrorResp (drop 6 txt))
      else if prefix ''status '' txt then Inr (StatusOk (drop 7 txt) [] 0)
      else if prefix ''at '' txt then Inr (NavigateOk (drop 3 txt) [])
      else Inl ''Unexpected token in JSON at position 0'')"

definition simJ :: json where
  "simJ = \<lparr>parseCommand = sim_parseCommand, stringifyCommand = sim_stringifyCommand,
           parseResult = sim_parseResult, stringifyResult = sim_stringifyResult\<rparr>"

text \<open>The machine before the daemon starts: nothing launched, two sites on the network.\<close>

definition sim0 :: sim where
  "sim0 = \<lparr>alive = False, can_launch = True, at = [], launches = 0, evals = 0,
           sites = [''http://a.test'', ''http://b.test'']\<rparr>"

definition booted :: "sim daemon" where
  "booted = boot simE (initial sim0 None None None)"

text \<open>
  States to run the daemon from: after a successful \<^verbatim>\<open>navigate\<close>; after the user has
  closed the browser window; on a machine where the browser can no longer be launched;
  and at the moment a restart is suspended in \<^verbatim>\<open>await chromium.launch(...)\<close> (line 26),
  after lines 86, 87 and 23 have run.
\<close>

definition visited :: "sim daemon" where
  "visited = tick simE simJ (booted\<lparr>COMMAND_FILE := Some ''navigate http://a.test''\<rparr>)"

definition window_closed :: "sim daemon \<Rightarrow> sim daemon" where
  "window_closed s = s\<lparr>world := (world s)\<lparr>alive := False\<rparr>\<rparr>"

definition no_chrome :: "sim daemon \<Rightarrow> sim daemon" where
  "no_chrome s = s\<lparr>world := (world s)\<lparr>can_launch := False\<rparr>\<rparr>"

definition mid_restart :: "sim daemon" where
  "mid_restart =
     say Stdout [Str ''Starting browser...'']
       ((say Stdout [Str ''Browser/page closed, restarting...''] (window_closed visited))\<lparr>isRestarting := True\<rparr>)"

text \<open>
  A second test engine, on a network that does not leave a visitor where it was sent:
  the front page of \<^verbatim>\<open>a.test\<close> sends the visitor on to \<^verbatim>\<open>/home\<close>, \<^verbatim>\<open>/home\<close> sends a
  visitor on to \<^verbatim>\<open>/login\<close>, and the page of \<^verbatim>\<open>b.test\<close> navigates away as soon as it
  has loaded, so that reading its title throws.
\<close>

definition sim_goto_redirecting ::
    "handle \<Rightarrow> string option \<Rightarrow> goto_options \<Rightarrow> sim \<Rightarrow> (exn + unit) \<times> page_event list \<times> sim" where
  "sim_goto_redirecting p u opts w =
     (if live p w \<and> u = Some ''http://a.test'' then (Inr (), [], w\<lparr>at := ''http://a.test/home''\<rparr>)
      else if live p w \<and> u = Some ''http://a.test/home'' then (Inr (), [], w\<lparr>at := ''http://a.test/login''\<rparr>)
      else sim_goto p u opts w)"

definition sim_title_fragile :: "handle \<Rightarrow> sim \<Rightarrow> (exn + string) \<times> page_event list \<times> sim" where
  "sim_title_fragile p w =
     (if live p w \<and> at w = ''http://b.test''
      then (Inl ''page.title: Execution context was destroyed, most likely because of a navigation'', [], w)
      else sim_title p w)"

definition simR :: "sim engine" where
  "simR = simE\<lparr>goto := sim_goto_redirecting, title := sim_title_fragile\<rparr>"

definition booted_redirecting :: "sim daemon" where
  "booted_redirecting = boot simR (initial sim0 None None None)"

definition visited_redirecting :: "sim daemon" where
  "visited_redirecting =
     tick simR simJ (booted_redirecting\<lparr>COMMAND_FILE := Some ''navigate http://a.test''\<rparr>)"

text \<open>A client's view of the channel with the daemon's ready marker in place.\<close>

definition ready :: process where
  "ready = \<lparr>COMMAND_FILE = None, RESULT_FILE = None, READY_FILE = Some ''ready'', stdio = [], exitCode = None\<rparr>"

section \<open>Relations between daemon states\<close>

text \<open>
  \<open>same_process s s'\<close>: the process still runs or has ended as before, the ready marker and
  the request slot are as they were, and the polling interval is installed or not as
  before. \<open>undisturbed s s'\<close> adds that the response slot and \<^verbatim>\<open>lastURL\<close> are as they
  were and that \<^verbatim>\<open>consoleLogs\<close> has only grown at its end.
\<close>

definition same_process :: "'w daemon \<Rightarrow> 'w daemon \<Rightarrow> bool" where
  "same_process s s' \<longleftrightarrow>
     exitCode s' = exitCode s \<and> READY_FILE s' = READY_FILE s \<and> COMMAND_FILE s' = COMMAND_FILE s \<and>
     watching s' = watching s"

definition undisturbed :: "'w daemon \<Rightarrow> 'w daemon \<Rightarrow> bool" where
  "undisturbed s s' \<longleftrightarrow>
     exitCode s' = exitCode s \<and> READY_FILE s' = READY_FILE s \<and> COMMAND_FILE s' = COMMAND_FILE s \<and>
     RESULT_FILE s' = RESULT_FILE s \<and> watching s' = watching s \<and> lastURL s' = lastURL s \<and>
     prefix (consoleLogs s) (consoleLogs s')"


text \<open>
  An engine whose \<^verbatim>\<open>page.goto\<close>, when it resolves, leaves the page at the address it was
  given.
\<close>

definition lands_where_sent :: "'w engine \<Rightarrow> bool" where
  "lands_where_sent E \<longleftrightarrow>
     (\<forall>p u opts w v evs w'. goto E p (Some u) opts w = (Inr v, evs, w') \<longrightarrow> page_url E p w' = u)"

text \<open>Setting the restarting mark of line 19, and nothing else.\<close>

definition mark :: "bool \<Rightarrow> 'w daemon \<Rightarrow> 'w daemon" where
  "mark b s = s\<lparr>isRestarting := b\<rparr>"

section \<open>What the engine calls leave alone\<close>

lemma undisturbed_refl: "undisturbed s s"
  by (simp add: undisturbed_def)

lemma undisturbed_trans: "undisturbed s t \<Longrightarrow> undisturbed t u \<Longrightarrow> undisturbed s u"
  by (auto simp: undisturbed_def)

lemma undisturbed_on_event: "undisturbed s (on_event s ev)"
  by (cases ev) (simp_all add: undisturbed_def say_def Let_def)

lemma undisturbed_foldl: "undisturbed s (foldl on_event s evs)"
proof (induction evs arbitrary: s)
  case Nil
  show ?case by (simp add: undisturbed_refl)
next
  case (Cons ev evs)
  have "undisturbed s (on_event s ev)" by (rule undisturbed_on_event)
  moreover have "undisturbed (on_event s ev) (foldl on_event (on_event s ev) evs)" by (rule Cons.IH)
  ultimately show ?case by (auto intro: undisturbed_trans)
qed

lemma undisturbed_await: "await call s = (r, s') \<Longrightarrow> undisturbed s s'"
proof -
  assume a: "await call s = (r, s')"
  obtain r0 evs w where c: "call (world s) = (r0, evs, w)" by (cases "call (world s)")
  from a c have s': "s' = foldl on_event (s\<lparr>world := w\<rparr>) evs" by (simp add: await_def)
  have "undisturbed s (s\<lparr>world := w\<rparr>)" by (simp add: undisturbed_def)
  with undisturbed_foldl [of "s\<lparr>world := w\<rparr>" evs] s' show ?thesis
    by (auto intro: undisturbed_trans)
qed

lemma undisturbed_startBrowser: "startBrowser E s = (r, s') \<Longrightarrow> undisturbed s s'"
  unfolding startBrowser_def setupPageListeners_def
  by (auto split: prod.splits sum.splits option.splits dest!: undisturbed_await simp: undisturbed_def say_def)

lemma undisturbed_await_snd: "undisturbed s (snd (await call s))"
  by (cases "await call s") (auto dest: undisturbed_await)

lemma undisturbed_teardown: "undisturbed s (teardown E s)"
  by (simp add: teardown_def undisturbed_refl undisturbed_await_snd split: option.splits)

lemma undisturbed_restore: "restore E s = (r, s') \<Longrightarrow> undisturbed s s'"
  unfolding restore_def
  by (auto split: prod.splits sum.splits option.splits if_splits dest!: undisturbed_await simp: undisturbed_def say_def)

lemma undisturbed_restart_try: "restart_try E s = (r, s') \<Longrightarrow> undisturbed s s'"
  unfolding restart_try_def
  by (auto split: prod.splits sum.splits
        intro: undisturbed_trans [OF undisturbed_teardown undisturbed_startBrowser]
               undisturbed_trans [OF undisturbed_trans [OF undisturbed_teardown undisturbed_startBrowser] undisturbed_restore])

lemma undisturbed_needsRestart: "needsRestart E s = (r, s') \<Longrightarrow> undisturbed s s'"
  unfolding needsRestart_def
  by (auto split: prod.splits sum.splits option.splits if_splits bool.splits dest!: undisturbed_await simp: undisturbed_def)


lemma undisturbed_isRestarting [simp]: "undisturbed s (t\<lparr>isRestarting := b\<rparr>) = undisturbed s t"
  by (simp add: undisturbed_def)

lemma undisturbed_say_r [simp]: "undisturbed s (say st args t) = undisturbed s t"
  by (simp add: undisturbed_def say_def)

lemma undisturbed_ensureBrowserReady: "undisturbed s (snd (ensureBrowserReady E s))"
proof -
  obtain nr s1 where n: "needsRestart E s = (nr, s1)" by (cases "needsRestart E s")
  have u1: "undisturbed s s1" by (rule undisturbed_needsRestart [OF n])
  show ?thesis
  proof (cases nr)
    case False
    with n u1 show ?thesis by (simp add: ensureBrowserReady_def)
  next
    case True
    let ?m = "(say Stdout [Str ''Browser/page closed, restarting...''] s1)\<lparr>isRestarting := True\<rparr>"
    obtain r2 s2 where r: "restart_try E ?m = (r2, s2)" by (cases "restart_try E ?m")
    have "undisturbed s1 ?m" by (simp add: undisturbed_refl)
    with u1 have "undisturbed s ?m" by (rule undisturbed_trans)
    then have "undisturbed s s2" using undisturbed_restart_try [OF r] by (rule undisturbed_trans)
    with n True r show ?thesis by (cases r2) (simp_all add: ensureBrowserReady_def)
  qed
qed

lemma same_process_undisturbed: "undisturbed s t \<Longrightarrow> same_process s t"
  by (simp add: undisturbed_def same_process_def)

lemma same_process_refl: "same_process s s"
  by (simp add: same_process_def)

lemma same_process_trans: "same_process s t \<Longrightarrow> same_process t u \<Longrightarrow> same_process s u"
  by (simp add: same_process_def)

lemma same_process_writeResult [simp]: "same_process s (writeResult J r t) = same_process s t"
  by (simp add: same_process_def writeResult_def)

lemma same_process_say [simp]: "same_process s (say st args t) = same_process s t"
  by (simp add: same_process_def say_def)

lemma same_process_await: "await call s = (r, s') \<Longrightarrow> same_process s s'"
  by (rule same_process_undisturbed [OF undisturbed_await])

lemma same_process_navigate: "same_process s (snd (case_navigate E J c s))"
proof (cases "page s")
  case None
  then show ?thesis by (simp add: case_navigate_def same_process_refl)
next
  case (Some p)
  show ?thesis
  proof (cases "data c")
    case None
    with Some show ?thesis by (simp add: case_navigate_def same_process_refl)
  next
    case (Some d)
    obtain r1 s1 where g: "await (goto E p (url d) \<lparr>waitUntil = ''networkidle'', timeout = 30000\<rparr>) s = (r1, s1)" by (cases "await (goto E p (url d) \<lparr>waitUntil = ''networkidle'', timeout = 30000\<rparr>) s")
    have p1: "same_process s s1" by (rule same_process_await [OF g])
    show ?thesis
    proof (cases r1)
      case (Inl e)
      with \<open>page s = Some p\<close> Some g p1 show ?thesis by (simp add: case_navigate_def)
    next
      case (Inr u)
      let ?s1 = "s1\<lparr>lastURL := page_url E p (world s1)\<rparr>"
      obtain r2 s2 where t: "await (title E p) ?s1 = (r2, s2)" by (cases "await (title E p) ?s1")
      have "same_process ?s1 s2" by (rule same_process_await [OF t])
      with p1 have "same_process s s2" by (simp add: same_process_def)
      with \<open>page s = Some p\<close> Some g Inr t show ?thesis by (cases r2) (simp_all add: case_navigate_def)
    qed
  qed
qed

lemma same_process_exec: "same_process s (snd (case_exec E J c s))"
  by (auto simp: case_exec_def same_process_refl split: option.splits prod.splits sum.splits
        dest: same_process_await)

lemma same_process_status: "same_process s (snd (case_status E J s))"
  by (auto simp: case_status_def same_process_refl split: option.splits prod.splits sum.splits
        dest: same_process_await)

lemma same_process_resize: "same_process s (snd (case_resize E J c s))"
  by (auto simp: case_resize_def same_process_refl split: option.splits prod.splits sum.splits
        dest: same_process_await)

lemma same_process_inner: "same_process s (snd (executeCommandInner E J c s))"
  by (simp add: executeCommandInner_def same_process_navigate same_process_exec same_process_status
        same_process_resize same_process_refl)
     (simp add: same_process_def)


lemma same_process_executeCommand: "same_process s (executeCommand E J c s)"
proof -
  obtain r1 s1 where i: "executeCommandInner E J c s = (r1, s1)" by (cases "executeCommandInner E J c s")
  have p1: "same_process s s1" using same_process_inner [of s E J c] i by simp
  show ?thesis
  proof (cases r1)
    case (Inr u)
    with i p1 show ?thesis by (simp add: executeCommand_def)
  next
    case (Inl err)
    show ?thesis
    proof (cases "session_lost err")
      case False
      with i Inl p1 show ?thesis by (simp add: executeCommand_def)
    next
      case True
      let ?m = "say Stdout [Str ''Command failed, restarting browser...''] s1"
      obtain r2 s2 where e: "ensureBrowserReady E ?m = (r2, s2)" by (cases "ensureBrowserReady E ?m")
      have "same_process ?m s2" using undisturbed_ensureBrowserReady [of ?m E] e
        by (simp add: same_process_undisturbed)
      with p1 have p2: "same_process s s2" by (simp add: same_process_def say_def)
      show ?thesis
      proof (cases r2)
        case (Inl retryErr)
        with i \<open>r1 = Inl err\<close> True e p2 show ?thesis by (simp add: executeCommand_def)
      next
        case (Inr u)
        obtain r3 s3 where j: "executeCommandInner E J c s2 = (r3, s3)" by (cases "executeCommandInner E J c s2")
        have "same_process s2 s3" using same_process_inner [of s2 E J c] j by simp
        with p2 have "same_process s s3" by (rule same_process_trans)
        with i \<open>r1 = Inl err\<close> True e Inr j show ?thesis by (cases r3) (simp_all add: executeCommand_def)
      qed
    qed
  qed
qed

lemma on_event_session:
  "world (on_event s ev) = world s \<and> page (on_event s ev) = page s \<and> browser (on_event s ev) = browser s
   \<and> ctx (on_event s ev) = ctx s \<and> isRestarting (on_event s ev) = isRestarting s"
  by (cases ev) (simp_all add: say_def Let_def)

lemma foldl_on_event_session:
  "world (foldl on_event s evs) = world s \<and> page (foldl on_event s evs) = page s
   \<and> browser (foldl on_event s evs) = browser s \<and> ctx (foldl on_event s evs) = ctx s
   \<and> isRestarting (foldl on_event s evs) = isRestarting s"
  by (induction evs arbitrary: s) (simp_all add: on_event_session)

lemma await_session:
  assumes "call (world s) = (r, evs, w)"
  shows "await call s = (r, foldl on_event (s\<lparr>world := w\<rparr>) evs)"
    and "world (snd (await call s)) = w"
    and "page (snd (await call s)) = page s"
    and "browser (snd (await call s)) = browser s"
    and "isRestarting (snd (await call s)) = isRestarting s"
  using assms by (simp_all add: await_def foldl_on_event_session)

lemma startBrowser_page: "startBrowser E s = (Inr u, s') \<Longrightarrow> page s' \<noteq> None"
  unfolding startBrowser_def setupPageListeners_def
  by (auto split: prod.splits sum.splits option.splits)









text \<open>The ways \<^verbatim>\<open>executeCommand\<close> can end, by the state it ends in.\<close>

lemma executeCommand_cases:
  obtains (ok) s1 where "executeCommandInner E J c s = (Inr (), s1)" "executeCommand E J c s = s1"
  | (app) err s1 where "executeCommandInner E J c s = (Inl err, s1)" "\<not> session_lost err"
      "executeCommand E J c s = writeResult J (ErrorResp err) s1"
  | (restart_failed) err s1 e s2 where "executeCommandInner E J c s = (Inl err, s1)" "session_lost err"
      "ensureBrowserReady E (say Stdout [Str ''Command failed, restarting browser...''] s1) = (Inl e, s2)"
      "executeCommand E J c s = writeResult J (ErrorResp e) s2"
  | (retry_failed) err s1 s2 e s3 where "executeCommandInner E J c s = (Inl err, s1)" "session_lost err"
      "ensureBrowserReady E (say Stdout [Str ''Command failed, restarting browser...''] s1) = (Inr (), s2)"
      "executeCommandInner E J c s2 = (Inl e, s3)"
      "executeCommand E J c s = writeResult J (ErrorResp e) s3"
  | (retry_ok) err s1 s2 s3 where "executeCommandInner E J c s = (Inl err, s1)" "session_lost err"
      "ensureBrowserReady E (say Stdout [Str ''Command failed, restarting browser...''] s1) = (Inr (), s2)"
      "executeCommandInner E J c s2 = (Inr (), s3)"
      "executeCommand E J c s = s3"
proof -
  obtain r1 s1 where i: "executeCommandInner E J c s = (r1, s1)" by (cases "executeCommandInner E J c s")
  show ?thesis
  proof (cases r1)
    case (Inr u)
    with i show ?thesis by (intro ok [of s1]) (simp_all add: executeCommand_def)
  next
    case (Inl err)
    show ?thesis
    proof (cases "session_lost err")
      case False
      with i Inl show ?thesis by (intro app [of err s1]) (simp_all add: executeCommand_def)
    next
      case True
      let ?m = "say Stdout [Str ''Command failed, restarting browser...''] s1"
      obtain r2 s2 where e: "ensureBrowserReady E ?m = (r2, s2)" by (cases "ensureBrowserReady E ?m")
      show ?thesis
      proof (cases r2)
        case (Inl e2)
        with i \<open>r1 = Inl err\<close> True e show ?thesis
          by (intro restart_failed [of err s1 e2 s2]) (simp_all add: executeCommand_def)
      next
        case (Inr u)
        obtain r3 s3 where j: "executeCommandInner E J c s2 = (r3, s3)" by (cases "executeCommandInner E J c s2")
        show ?thesis
        proof (cases r3)
          case (Inl e3)
          with i \<open>r1 = Inl err\<close> True e Inr j show ?thesis
            by (intro retry_failed [of err s1 s2 e3 s3]) (simp_all add: executeCommand_def)
        next
          case (Inr v)
          with i \<open>r1 = Inl err\<close> True e \<open>r2 = Inr u\<close> j show ?thesis
            by (intro retry_ok [of err s1 s2 s3]) (simp_all add: executeCommand_def)
        qed
      qed
    qed
  qed
qed


lemma inner_throws_action:
  "executeCommandInner E J c s = (Inl e, s1) \<Longrightarrow>
   action c = Some ''navigate'' \<or> action c = Some ''exec'' \<or> action c = Some ''status'' \<or> action c = Some ''resize''"
  by (simp add: executeCommandInner_def split: if_splits)

lemma navigate_ok_writes:
  "case_navigate E J c s = (Inr u, s') \<Longrightarrow> \<exists>r. r_success r \<and> RESULT_FILE s' = Some (stringifyResult J r)"
  by (auto simp: case_navigate_def writeResult_def split: option.splits prod.splits sum.splits
        intro: exI [of _ "NavigateOk a b" for a b])

lemma exec_ok_writes:
  "case_exec E J c s = (Inr u, s') \<Longrightarrow> \<exists>r. r_success r \<and> RESULT_FILE s' = Some (stringifyResult J r)"
  by (auto simp: case_exec_def writeResult_def split: option.splits prod.splits sum.splits
        intro: exI [of _ "ExecOk a" for a])

lemma status_ok_writes:
  "case_status E J s = (Inr u, s') \<Longrightarrow> \<exists>r. r_success r \<and> RESULT_FILE s' = Some (stringifyResult J r)"
  by (auto simp: case_status_def writeResult_def split: option.splits prod.splits sum.splits
        intro: exI [of _ "StatusOk a b n" for a b n])

lemma resize_ok_writes:
  "case_resize E J c s = (Inr u, s') \<Longrightarrow> \<exists>r. r_success r \<and> RESULT_FILE s' = Some (stringifyResult J r)"
  by (auto simp: case_resize_def writeResult_def split: option.splits prod.splits sum.splits
        intro: exI [of _ "ResizeOk a b" for a b])

lemma retry_ok_writes:
  assumes "executeCommandInner E J c s = (Inl e, s1)" and "executeCommandInner E J c s2 = (Inr u, s3)"
  shows "\<exists>r. r_success r \<and> RESULT_FILE s3 = Some (stringifyResult J r)"
  using inner_throws_action [OF assms(1)] assms(2)
  by (auto simp: executeCommandInner_def
        dest: navigate_ok_writes exec_ok_writes status_ok_writes resize_ok_writes)

text \<open>
  The restarting mark is never read: a call of \<^verbatim>\<open>ensureBrowserReady\<close> does the same
  whatever the mark is when it starts, and leaves the same state but for the mark
  itself.
\<close>

lemma mark_reads:
  "world (mark b s) = world s" "browser (mark b s) = browser s" "page (mark b s) = page s"
  "ctx (mark b s) = ctx s" "lastURL (mark b s) = lastURL s" "consoleLogs (mark b s) = consoleLogs s"
  by (simp_all add: mark_def)

lemma mark_out:
  "say st args (mark b s) = mark b (say st args s)"
  "(mark b s)\<lparr>world := w\<rparr> = mark b (s\<lparr>world := w\<rparr>)"
  "(mark b s)\<lparr>browser := x\<rparr> = mark b (s\<lparr>browser := x\<rparr>)"
  "(mark b s)\<lparr>ctx := x\<rparr> = mark b (s\<lparr>ctx := x\<rparr>)"
  "(mark b s)\<lparr>page := x\<rparr> = mark b (s\<lparr>page := x\<rparr>)"
  "mark c (mark b s) = mark c s"
  by (simp_all add: mark_def say_def)

lemma on_event_mark: "on_event (mark b s) ev = mark b (on_event s ev)"
  by (cases ev) (simp_all add: mark_def say_def Let_def)

lemma foldl_on_event_mark: "foldl on_event (mark b s) evs = mark b (foldl on_event s evs)"
  by (induction evs arbitrary: s) (simp_all add: on_event_mark)

lemma await_mark: "await call (mark b s) = (fst (await call s), mark b (snd (await call s)))"
  by (cases "call (world s)") (simp add: await_def mark_reads mark_out foldl_on_event_mark)

lemma needsRestart_mark:
  "needsRestart E (mark b s) = (fst (needsRestart E s), mark b (snd (needsRestart E s)))"
  by (auto simp: needsRestart_def await_mark mark_reads split: prod.splits sum.splits option.splits bool.splits)

lemma ensureBrowserReady_ignores_mark:
  "fst (ensureBrowserReady E (s\<lparr>isRestarting := b\<rparr>)) = fst (ensureBrowserReady E s)
   \<and> (snd (ensureBrowserReady E (s\<lparr>isRestarting := b\<rparr>)))\<lparr>isRestarting := c\<rparr>
       = (snd (ensureBrowserReady E s))\<lparr>isRestarting := c\<rparr>"
proof -
  obtain nr s1 where n: "needsRestart E s = (nr, s1)" by (cases "needsRestart E s")
  then have n': "needsRestart E (mark b s) = (nr, mark b s1)" by (simp add: needsRestart_mark)
  show ?thesis
  proof (cases nr)
    case False
    with n n' show ?thesis
      by (simp add: ensureBrowserReady_def mark_def [symmetric] mark_out)
  next
    case True
    let ?m = "say Stdout [Str ''Browser/page closed, restarting...''] s1"
    have "(say Stdout [Str ''Browser/page closed, restarting...''] (mark b s1))\<lparr>isRestarting := True\<rparr> = mark True ?m"
      by (simp add: mark_def say_def)
    moreover have "?m\<lparr>isRestarting := True\<rparr> = mark True ?m" by (simp add: mark_def)
    ultimately show ?thesis using n n' True
      by (simp add: ensureBrowserReady_def mark_def [symmetric])
  qed
qed

section \<open>The poll loop\<close>

text \<open>
  Claim C6. On a firing of the polling interval that finds a Request in the request slot,
  the slot is empty once the firing is over, and it was already empty when the command
  was handed to \<^verbatim>\<open>executeCommand\<close>: the dispatch starts from the state with the slot
  deleted. A second firing right after finds nothing and changes nothing, so the Request
  is dispatched once at most. When the text of the Request cannot be decoded, the
  firing deletes the slot, prints one line and writes one error Response, which carries
  the decoder's message.
\<close>

theorem request_consumed_once:
  assumes "watching s" and "exitCode s = None" and "COMMAND_FILE s = Some txt"
  shows "COMMAND_FILE (tick E J s) = None
       \<and> tick E J (tick E J s) = tick E J s
       \<and> (\<forall>c. parseCommand J txt = Inr c \<longrightarrow>
             tick E J s = executeCommand E J c (s\<lparr>COMMAND_FILE := None\<rparr>))
       \<and> (\<forall>e. parseCommand J txt = Inl e \<longrightarrow>
             tick E J s = writeResult J (ErrorResp e)
                            (say Stderr [Str ''Command processing error:'', Str e] (s\<lparr>COMMAND_FILE := None\<rparr>))
             \<and> RESULT_FILE (tick E J s) = Some (stringifyResult J (ErrorResp e)))"
proof -
  have t: "tick E J s = poll E J s" using assms by (simp add: tick_def)
  have gone: "COMMAND_FILE (poll E J s) = None"
  proof (cases "parseCommand J txt")
    case (Inl e)
    with assms show ?thesis by (simp add: poll_def writeResult_def say_def)
  next
    case (Inr c)
    have "same_process (s\<lparr>COMMAND_FILE := None\<rparr>) (executeCommand E J c (s\<lparr>COMMAND_FILE := None\<rparr>))"
      by (rule same_process_executeCommand)
    with assms Inr show ?thesis by (simp add: poll_def same_process_def)
  qed
  then have "poll E J (poll E J s) = poll E J s" by (simp add: poll_def [of E J "poll E J s"])
  then have again: "tick E J (tick E J s) = tick E J s" by (simp add: t tick_def)
  from assms have "\<forall>c. parseCommand J txt = Inr c \<longrightarrow>
      poll E J s = executeCommand E J c (s\<lparr>COMMAND_FILE := None\<rparr>)"
    by (simp add: poll_def)
  moreover from assms have "\<forall>e. parseCommand J txt = Inl e \<longrightarrow>
      poll E J s = writeResult J (ErrorResp e)
                     (say Stderr [Str ''Command processing error:'', Str e] (s\<lparr>COMMAND_FILE := None\<rparr>))
      \<and> RESULT_FILE (poll E J s) = Some (stringifyResult J (ErrorResp e))"
    by (simp add: poll_def writeResult_def)
  ultimately show ?thesis using gone again unfolding t by blast
qed

theorem request_consumed_once_witness:
  "watching (booted\<lparr>COMMAND_FILE := Some ''{action:''\<rparr>)
   \<and> exitCode (booted\<lparr>COMMAND_FILE := Some ''{action:''\<rparr>) = None
   \<and> COMMAND_FILE (booted\<lparr>COMMAND_FILE := Some ''{action:''\<rparr>) = Some ''{action:''
   \<and> parseCommand simJ ''{action:'' = Inl ''Unexpected token in JSON at position 0''
   \<and> COMMAND_FILE (tick simE simJ (booted\<lparr>COMMAND_FILE := Some ''{action:''\<rparr>)) = None
   \<and> tick simE simJ (tick simE simJ (booted\<lparr>COMMAND_FILE := Some ''{action:''\<rparr>))
       = tick simE simJ (booted\<lparr>COMMAND_FILE := Some ''{action:''\<rparr>)
   \<and> RESULT_FILE (tick simE simJ (booted\<lparr>COMMAND_FILE := Some ''{action:''\<rparr>))
       = Some (stringifyResult simJ (ErrorResp ''Unexpected token in JSON at position 0''))"
proof -
  let ?s = "booted\<lparr>COMMAND_FILE := Some ''{action:''\<rparr>"
  have h1: "watching ?s" by code_simp
  have h2: "exitCode ?s = None" by code_simp
  have h3: "COMMAND_FILE ?s = Some ''{action:''" by simp
  have p: "parseCommand simJ ''{action:'' = Inl ''Unexpected token in JSON at position 0''" by code_simp
  from request_consumed_once [OF h1 h2 h3, of simE simJ] p h1 h2 h3 show ?thesis by blast
qed

section \<open>The console log buffer\<close>

text \<open>
  Claim C9. Whatever the buffer held, dispatching \<^verbatim>\<open>console-clear\<close> and then
  \<^verbatim>\<open>console\<close>, with nothing in between, leaves in the response slot the success
  Response whose \<^verbatim>\<open>logs\<close> is the empty sequence.
\<close>

theorem clear_then_console_is_empty:
  assumes "action c1 = Some ''console-clear''" and "action c2 = Some ''console''"
  shows "RESULT_FILE (executeCommand E J c2 (executeCommand E J c1 s)) = Some (stringifyResult J (ConsoleOk []))"
  using assms by (simp add: executeCommand_def executeCommandInner_def writeResult_def)

theorem clear_then_console_is_empty_witness:
  "action (cmd ''console-clear'' no_data) = Some ''console-clear''
   \<and> action (cmd ''console'' no_data) = Some ''console''
   \<and> consoleLogs (tick simE simJ (booted\<lparr>COMMAND_FILE := Some ''navigate http://a.test''\<rparr>)) \<noteq> []
   \<and> RESULT_FILE (executeCommand simE simJ (cmd ''console'' no_data)
        (executeCommand simE simJ (cmd ''console-clear'' no_data)
          (tick simE simJ (booted\<lparr>COMMAND_FILE := Some ''navigate http://a.test''\<rparr>))))
       = Some (stringifyResult simJ (ConsoleOk []))"
proof -
  have a1: "action (cmd ''console-clear'' no_data) = Some ''console-clear''" by (simp add: cmd_def)
  have a2: "action (cmd ''console'' no_data) = Some ''console''" by (simp add: cmd_def)
  have n: "consoleLogs (tick simE simJ (booted\<lparr>COMMAND_FILE := Some ''navigate http://a.test''\<rparr>)) \<noteq> []"
    by code_simp
  from clear_then_console_is_empty [OF a1 a2] a1 a2 n show ?thesis by blast
qed

text \<open>
  Claim C8. A restart does not touch what the buffer holds: after the teardown, after
  \<^verbatim>\<open>startBrowser\<close> and after the whole of \<^verbatim>\<open>ensureBrowserReady\<close>, whether it
  succeeded or threw, the buffer begins with exactly the entries it held before, in the
  same order. Entries can only be added behind them, by the listeners, for events the
  engine delivers while the restart waits for it. A \<^verbatim>\<open>console\<close> command dispatched
  after the restart returns the earlier entries followed by those.
\<close>

theorem restart_keeps_console_logs:
  "prefix (consoleLogs s) (consoleLogs (teardown E s))
   \<and> prefix (consoleLogs s) (consoleLogs (snd (startBrowser E s)))
   \<and> prefix (consoleLogs s) (consoleLogs (snd (ensureBrowserReady E s)))
   \<and> (action c = Some ''console'' \<longrightarrow>
        (\<exists>later. RESULT_FILE (executeCommand E J c (snd (ensureBrowserReady E s)))
                   = Some (stringifyResult J (ConsoleOk (consoleLogs s @ later)))))"
proof -
  have a: "prefix (consoleLogs s) (consoleLogs (teardown E s))"
    using undisturbed_teardown [of s E] by (simp add: undisturbed_def)
  have b: "prefix (consoleLogs s) (consoleLogs (snd (startBrowser E s)))"
    using undisturbed_startBrowser [of E s "fst (startBrowser E s)" "snd (startBrowser E s)"]
    by (simp add: undisturbed_def)
  have c: "prefix (consoleLogs s) (consoleLogs (snd (ensureBrowserReady E s)))"
    using undisturbed_ensureBrowserReady [of s E] by (simp add: undisturbed_def)
  then obtain later where l: "consoleLogs (snd (ensureBrowserReady E s)) = consoleLogs s @ later"
    by (auto simp: prefix_def)
  have "action c = Some ''console'' \<longrightarrow>
      RESULT_FILE (executeCommand E J c (snd (ensureBrowserReady E s)))
        = Some (stringifyResult J (ConsoleOk (consoleLogs s @ later)))"
    by (simp add: executeCommand_def executeCommandInner_def writeResult_def l)
  with a b c show ?thesis by blast
qed

theorem restart_keeps_console_logs_witness:
  "action (cmd ''console'' no_data) = Some ''console''
   \<and> length (consoleLogs (window_closed visited)) = 1
   \<and> length (consoleLogs (snd (ensureBrowserReady simE (window_closed visited)))) = 2
   \<and> prefix (consoleLogs (window_closed visited))
        (consoleLogs (snd (ensureBrowserReady simE (window_closed visited))))
   \<and> (\<exists>later. RESULT_FILE (executeCommand simE simJ (cmd ''console'' no_data)
                  (snd (ensureBrowserReady simE (window_closed visited))))
         = Some (stringifyResult simJ (ConsoleOk (consoleLogs (window_closed visited) @ later))))"
proof -
  have a: "action (cmd ''console'' no_data) = Some ''console''" by (simp add: cmd_def)
  have n1: "length (consoleLogs (window_closed visited)) = 1" by code_simp
  have n2: "length (consoleLogs (snd (ensureBrowserReady simE (window_closed visited)))) = 2" by code_simp
  from restart_keeps_console_logs [of "window_closed visited" simE "cmd ''console'' no_data" simJ] a n1 n2
  show ?thesis by blast
qed

section \<open>The session health monitor\<close>

text \<open>
  Claim C7, as the code has it. Take a restart: the usability check says the session
  must be replaced, and \<^verbatim>\<open>startBrowser\<close> succeeds after the teardown. If \<^verbatim>\<open>lastURL\<close> is
  a non-empty string other than \<^verbatim>\<open>about:blank\<close>, the restart calls \<^verbatim>\<open>page.goto\<close> on
  the new page with \<^verbatim>\<open>lastURL\<close> and a timeout of 30000 ms. Whether that call resolves
  or throws, \<^verbatim>\<open>ensureBrowserReady\<close> returns normally, the restarting mark is cleared
  and \<^verbatim>\<open>lastURL\<close> is what it was; a failure is printed as the last line,
  \<^verbatim>\<open>Failed to restore URL: ...\<close>. The session is left on the new page exactly as the
  engine's call left it, so its current address is the one the engine reports after
  loading \<^verbatim>\<open>lastURL\<close>. When the engine's \<^verbatim>\<open>page.goto\<close> lands where it is sent and the
  call resolves, that address is \<^verbatim>\<open>lastURL\<close>.
\<close>

theorem restart_restores_lastURL:
  assumes "needsRestart E s = (True, s1)"
      and "startBrowser E (teardown E ((say Stdout [Str ''Browser/page closed, restarting...''] s1)\<lparr>isRestarting := True\<rparr>))
             = (Inr u, s2)"
      and "lastURL s \<noteq> []" and "lastURL s \<noteq> ''about:blank''"
  shows "\<exists>p r evs w.
           page s2 = Some p
         \<and> goto E p (Some (lastURL s)) \<lparr>waitUntil = ''networkidle'', timeout = 30000\<rparr> (world s2) = (r, evs, w)
         \<and> fst (ensureBrowserReady E s) = Inr ()
         \<and> \<not> isRestarting (snd (ensureBrowserReady E s))
         \<and> lastURL (snd (ensureBrowserReady E s)) = lastURL s
         \<and> page (snd (ensureBrowserReady E s)) = Some p
         \<and> world (snd (ensureBrowserReady E s)) = w
         \<and> (\<forall>e. r = Inl e \<longrightarrow>
               last (stdio (snd (ensureBrowserReady E s))) = (Stdout, [Str (''Failed to restore URL: '' @ e)]))
         \<and> (lands_where_sent E \<longrightarrow>
               (\<forall>v. r = Inr v \<longrightarrow> page_url E p (world (snd (ensureBrowserReady E s))) = lastURL s))"
proof -
  let ?m = "(say Stdout [Str ''Browser/page closed, restarting...''] s1)\<lparr>isRestarting := True\<rparr>"
  have "undisturbed s s1" by (rule undisturbed_needsRestart [OF assms(1)])
  moreover have "undisturbed s1 ?m" by (simp add: undisturbed_refl)
  moreover have "undisturbed ?m (teardown E ?m)" by (rule undisturbed_teardown)
  moreover have "undisturbed (teardown E ?m) s2" by (rule undisturbed_startBrowser [OF assms(2)])
  ultimately have "undisturbed s s2" by (blast intro: undisturbed_trans)
  then have l2: "lastURL s2 = lastURL s" by (simp add: undisturbed_def)
  from startBrowser_page [OF assms(2)] obtain p where p: "page s2 = Some p" by auto
  let ?t = "say Stdout [Str (''Restoring last URL: '' @ lastURL s)] s2"
  obtain r evs w where g: "goto E p (Some (lastURL s)) \<lparr>waitUntil = ''networkidle'', timeout = 30000\<rparr> (world s2) = (r, evs, w)"
    by (cases "goto E p (Some (lastURL s)) \<lparr>waitUntil = ''networkidle'', timeout = 30000\<rparr> (world s2)")
  then have g': "goto E p (Some (lastURL s)) \<lparr>waitUntil = ''networkidle'', timeout = 30000\<rparr> (world ?t) = (r, evs, w)" by (simp add: say_def)
  let ?s3 = "foldl on_event (?t\<lparr>world := w\<rparr>) evs"
  have aw: "await (goto E p (Some (lastURL s)) \<lparr>waitUntil = ''networkidle'', timeout = 30000\<rparr>) ?t = (r, ?s3)" using g' by (simp add: await_def)
  have f3: "world ?s3 = w" "page ?s3 = Some p"
    using p by (simp_all add: foldl_on_event_session say_def)
  have "undisturbed ?t ?s3" by (rule undisturbed_await [OF aw])
  then have l3: "lastURL ?s3 = lastURL s" using l2 by (simp add: undisturbed_def say_def)
  have rt: "restart_try E ?m = restore E s2" using assms(2) by (simp add: restart_try_def)
  have rs: "restore E s2 =
      (Inr (), case r of Inl e \<Rightarrow> say Stdout [Str (''Failed to restore URL: '' @ e)] ?s3 | Inr v \<Rightarrow> ?s3)"
    using assms(3,4) l2 p aw by (cases r) (simp_all add: restore_def)
  have e: "ensureBrowserReady E s =
      (Inr (), (case r of Inl e \<Rightarrow> say Stdout [Str (''Failed to restore URL: '' @ e)] ?s3 | Inr v \<Rightarrow> ?s3)
                 \<lparr>isRestarting := False\<rparr>)"
    using assms(1) rt rs by (simp add: ensureBrowserReady_def)
  have "fst (ensureBrowserReady E s) = Inr ()" "\<not> isRestarting (snd (ensureBrowserReady E s))"
    by (simp_all add: e)
  moreover have "lastURL (snd (ensureBrowserReady E s)) = lastURL s"
    using l3 by (cases r) (simp_all add: e say_def)
  moreover have pw: "page (snd (ensureBrowserReady E s)) = Some p" "world (snd (ensureBrowserReady E s)) = w"
    using f3 by (cases r; simp add: e say_def)+
  moreover have "\<forall>e. r = Inl e \<longrightarrow>
      last (stdio (snd (ensureBrowserReady E s))) = (Stdout, [Str (''Failed to restore URL: '' @ e)])"
    by (auto simp: e say_def)
  moreover have "lands_where_sent E \<longrightarrow>
      (\<forall>v. r = Inr v \<longrightarrow> page_url E p (world (snd (ensureBrowserReady E s))) = lastURL s)"
  proof (intro impI allI)
    fix v
    assume "lands_where_sent E" and "r = Inr v"
    with g have "page_url E p w = lastURL s" by (auto simp: lands_where_sent_def)
    with pw(2) show "page_url E p (world (snd (ensureBrowserReady E s))) = lastURL s" by simp
  qed
  ultimately show ?thesis using p g by blast
qed

theorem restart_restores_lastURL_witness:
  "needsRestart simE (window_closed visited) = (True, window_closed visited)
   \<and> fst (startBrowser simE (teardown simE
        ((say Stdout [Str ''Browser/page closed, restarting...''] (window_closed visited))\<lparr>isRestarting := True\<rparr>)))
       = Inr ()
   \<and> lastURL (window_closed visited) = ''http://a.test''
   \<and> lands_where_sent simE
   \<and> fst (ensureBrowserReady simE (window_closed visited)) = Inr ()
   \<and> page (snd (ensureBrowserReady simE (window_closed visited))) = Some 2
   \<and> page_url simE 2 (world (snd (ensureBrowserReady simE (window_closed visited))))
       = lastURL (window_closed visited)"
proof -
  let ?s = "window_closed visited"
  let ?m = "(say Stdout [Str ''Browser/page closed, restarting...''] ?s)\<lparr>isRestarting := True\<rparr>"
  let ?s2 = "snd (startBrowser simE (teardown simE ?m))"
  let ?o = "\<lparr>waitUntil = ''networkidle'', timeout = 30000\<rparr>"
  have h1: "needsRestart simE ?s = (True, ?s)" by code_simp
  have f: "fst (startBrowser simE (teardown simE ?m)) = Inr ()" by code_simp
  then have h2: "startBrowser simE (teardown simE ?m) = (Inr (), ?s2)"
    by (metis prod.collapse)
  have l: "lastURL ?s = ''http://a.test''" by code_simp
  then have h3: "lastURL ?s \<noteq> []" and h4: "lastURL ?s \<noteq> ''about:blank''" by simp_all
  have lw: "lands_where_sent simE"
    by (auto simp: lands_where_sent_def simE_def sim_goto_def split: if_splits option.splits)
  have p2: "page ?s2 = Some 2" by code_simp
  have g2: "fst (goto simE 2 (Some (lastURL ?s)) ?o (world ?s2)) = Inr ()" by code_simp
  from restart_restores_lastURL [OF h1 h2 h3 h4] obtain p r evs w where
    c: "page ?s2 = Some p" "goto simE p (Some (lastURL ?s)) ?o (world ?s2) = (r, evs, w)"
       "fst (ensureBrowserReady simE ?s) = Inr ()"
       "page (snd (ensureBrowserReady simE ?s)) = Some p"
       "lands_where_sent simE \<longrightarrow>
          (\<forall>v. r = Inr v \<longrightarrow> page_url simE p (world (snd (ensureBrowserReady simE ?s))) = lastURL ?s)"
    by blast
  from c(1) p2 have p: "p = 2" by simp
  from c(2) g2 p have "r = Inr ()" by simp
  with c(5) lw p have u: "page_url simE 2 (world (snd (ensureBrowserReady simE ?s))) = lastURL ?s" by simp
  from h1 f l lw c(3) c(4) p u show ?thesis by simp
qed

text \<open>
  Claim C7 as stated fails in its last clause on an engine that does not land where it
  is sent. After a \<^verbatim>\<open>navigate\<close> to \<^verbatim>\<open>a.test\<close> the daemon remembers \<^verbatim>\<open>/home\<close>, where
  the page ended up. The window is closed and the session restarted: the restoring
  \<^verbatim>\<open>page.goto\<close> of \<^verbatim>\<open>/home\<close> resolves, nothing is printed after
  \<^verbatim>\<open>Restoring last URL: ...\<close>, and the restored session is at \<^verbatim>\<open>/login\<close>, not at
  \<^verbatim>\<open>lastURL\<close>.
\<close>

theorem restored_session_is_elsewhere:
  "lastURL (window_closed visited_redirecting) = ''http://a.test/home''
   \<and> fst (goto simR 2 (Some ''http://a.test/home'') \<lparr>waitUntil = ''networkidle'', timeout = 30000\<rparr>
        (world (snd (startBrowser simR (teardown simR
           ((say Stdout [Str ''Browser/page closed, restarting...''] (window_closed visited_redirecting))
              \<lparr>isRestarting := True\<rparr>)))))) = Inr ()
   \<and> fst (ensureBrowserReady simR (window_closed visited_redirecting)) = Inr ()
   \<and> last (stdio (snd (ensureBrowserReady simR (window_closed visited_redirecting))))
       = (Stdout, [Str ''Restoring last URL: http://a.test/home''])
   \<and> page (snd (ensureBrowserReady simR (window_closed visited_redirecting))) = Some 2
   \<and> page_url simR 2 (world (snd (ensureBrowserReady simR (window_closed visited_redirecting))))
       = ''http://a.test/login''"
  by code_simp

section \<open>The remembered address\<close>




section \<open>The dispatcher\<close>

text \<open>
  Claim C1, as the code has it. Let the first execution of a command throw \<open>err\<close>.
  If the message of \<open>err\<close> contains neither \<^verbatim>\<open>closed\<close> nor \<^verbatim>\<open>disconnected\<close>, the
  dispatcher writes the error Response carrying that message and does nothing else: no
  call of the health monitor, no second execution. Otherwise it calls
  \<^verbatim>\<open>ensureBrowserReady\<close> once, which restarts the session only if its own check finds
  the session unusable. If that call throws, the command is not executed again and the
  error Response carries the message of that failure. If it returns, the same command
  is executed a second time, once: when this execution returns, its success Response is
  what the response slot holds and the first error is not surfaced; when it throws, the
  error Response carries the message of the second failure.
\<close>

theorem session_loss_is_retried_once:
  assumes "executeCommandInner E J c s = (Inl err, s1)"
  shows "(\<not> session_lost err \<longrightarrow> executeCommand E J c s = writeResult J (ErrorResp err) s1)
       \<and> (session_lost err \<longrightarrow>
            (\<exists>r2 s2. ensureBrowserReady E (say Stdout [Str ''Command failed, restarting browser...''] s1) = (r2, s2)
               \<and> (\<forall>e. r2 = Inl e \<longrightarrow> executeCommand E J c s = writeResult J (ErrorResp e) s2)
               \<and> (r2 = Inr () \<longrightarrow>
                    (\<exists>r3 s3. executeCommandInner E J c s2 = (r3, s3)
                       \<and> (\<forall>e. r3 = Inl e \<longrightarrow> executeCommand E J c s = writeResult J (ErrorResp e) s3)
                       \<and> (r3 = Inr () \<longrightarrow>
                            executeCommand E J c s = s3
                            \<and> (\<exists>r. r_success r \<and> RESULT_FILE s3 = Some (stringifyResult J r)))))))"
proof (cases E J c s rule: executeCommand_cases)
  case (ok t1)
  with assms show ?thesis by simp
next
  case (app err' t1)
  with assms show ?thesis by simp
next
  case (restart_failed err' t1 e t2)
  with assms show ?thesis by simp
next
  case (retry_failed err' t1 t2 e t3)
  with assms show ?thesis by simp
next
  case (retry_ok err' t1 t2 t3)
  from retry_ok_writes [OF retry_ok(1) retry_ok(4)]
  have "\<exists>r. r_success r \<and> RESULT_FILE t3 = Some (stringifyResult J r)" .
  with retry_ok assms show ?thesis by simp
qed

theorem session_loss_is_retried_once_witness:
  "fst (executeCommandInner simE simJ (cmd ''exec'' (no_data\<lparr>code := Some ''1''\<rparr>)) (window_closed visited))
     = Inl closed_msg
   \<and> session_lost closed_msg
   \<and> launches (world (window_closed visited)) = 1
   \<and> launches (world (executeCommand simE simJ (cmd ''exec'' (no_data\<lparr>code := Some ''1''\<rparr>)) (window_closed visited))) = 2
   \<and> evals (world (executeCommand simE simJ (cmd ''exec'' (no_data\<lparr>code := Some ''1''\<rparr>)) (window_closed visited))) = 2
   \<and> (\<exists>r. r_success r
          \<and> RESULT_FILE (executeCommand simE simJ (cmd ''exec'' (no_data\<lparr>code := Some ''1''\<rparr>)) (window_closed visited))
              = Some (stringifyResult simJ r))
   \<and> fst (executeCommandInner simE simJ (cmd ''exec'' (no_data\<lparr>code := Some ''boom()''\<rparr>)) visited)
       = Inl ''page.evaluate: ReferenceError: boom is not defined''
   \<and> \<not> session_lost ''page.evaluate: ReferenceError: boom is not defined''
   \<and> executeCommand simE simJ (cmd ''exec'' (no_data\<lparr>code := Some ''boom()''\<rparr>)) visited
       = writeResult simJ (ErrorResp ''page.evaluate: ReferenceError: boom is not defined'')
           (snd (executeCommandInner simE simJ (cmd ''exec'' (no_data\<lparr>code := Some ''boom()''\<rparr>)) visited))"
proof -
  let ?c = "cmd ''exec'' (no_data\<lparr>code := Some ''1''\<rparr>)"
  let ?s = "window_closed visited"
  let ?s1 = "snd (executeCommandInner simE simJ ?c ?s)"
  let ?s2 = "snd (ensureBrowserReady simE (say Stdout [Str ''Command failed, restarting browser...''] ?s1))"
  have f1: "fst (executeCommandInner simE simJ ?c ?s) = Inl closed_msg" by code_simp
  then have h: "executeCommandInner simE simJ ?c ?s = (Inl closed_msg, ?s1)" by (simp add: prod_eq_iff)
  have l: "session_lost closed_msg" by code_simp
  have f2: "fst (ensureBrowserReady simE (say Stdout [Str ''Command failed, restarting browser...''] ?s1)) = Inr ()"
    by code_simp
  have f3: "fst (executeCommandInner simE simJ ?c ?s2) = Inr ()" by code_simp
  from session_loss_is_retried_once [OF h] l f2 f3
  have r: "\<exists>r. r_success r \<and> RESULT_FILE (executeCommand simE simJ ?c ?s) = Some (stringifyResult simJ r)"
    by (auto simp: prod_eq_iff)
  have n: "launches (world ?s) = 1" "launches (world (executeCommand simE simJ ?c ?s)) = 2"
    "evals (world (executeCommand simE simJ ?c ?s)) = 2"
    by code_simp+
  let ?b = "cmd ''exec'' (no_data\<lparr>code := Some ''boom()''\<rparr>)"
  let ?e = "''page.evaluate: ReferenceError: boom is not defined''"
  have g1: "fst (executeCommandInner simE simJ ?b visited) = Inl ?e" by code_simp
  then have g: "executeCommandInner simE simJ ?b visited = (Inl ?e, snd (executeCommandInner simE simJ ?b visited))"
    by (simp add: prod_eq_iff)
  have g2: "\<not> session_lost ?e" by code_simp
  from session_loss_is_retried_once [OF g] g2
  have a: "executeCommand simE simJ ?b visited
      = writeResult simJ (ErrorResp ?e) (snd (executeCommandInner simE simJ ?b visited))"
    by blast
  from f1 l n r g1 g2 a show ?thesis by blast
qed

text \<open>
  Claim C1 as stated fails in two ways. With the window closed and the browser
  impossible to launch, the first execution of \<^verbatim>\<open>exec\<close> throws a session-loss error,
  the restart throws, and the command has been evaluated once, not twice. With the
  session in order and evaluated code that throws an error whose message contains
  \<^verbatim>\<open>closed\<close>, the command is evaluated twice although no browser is launched in
  between.
\<close>

theorem no_second_execution_when_restart_fails:
  "fst (executeCommandInner simE simJ (cmd ''exec'' (no_data\<lparr>code := Some ''1''\<rparr>)) (no_chrome (window_closed visited)))
     = Inl closed_msg
   \<and> session_lost closed_msg
   \<and> evals (world (no_chrome (window_closed visited))) = 0
   \<and> evals (world (executeCommand simE simJ (cmd ''exec'' (no_data\<lparr>code := Some ''1''\<rparr>))
                     (no_chrome (window_closed visited)))) = 1
   \<and> RESULT_FILE (executeCommand simE simJ (cmd ''exec'' (no_data\<lparr>code := Some ''1''\<rparr>))
                     (no_chrome (window_closed visited)))
       = Some (stringifyResult simJ (ErrorResp ''Failed to launch chrome''))
   \<and> fst (executeCommandInner simE simJ (cmd ''exec'' (no_data\<lparr>code := Some ''shut()''\<rparr>)) visited)
       = Inl ''page.evaluate: Error: the shop is closed''
   \<and> session_lost ''page.evaluate: Error: the shop is closed''
   \<and> launches (world visited) = 1
   \<and> launches (world (executeCommand simE simJ (cmd ''exec'' (no_data\<lparr>code := Some ''shut()''\<rparr>)) visited)) = 1
   \<and> evals (world (executeCommand simE simJ (cmd ''exec'' (no_data\<lparr>code := Some ''shut()''\<rparr>)) visited)) = 2"
  by code_simp

text \<open>
  Claim C2, as the code has it. When \<^verbatim>\<open>startBrowser\<close> throws during the start of the
  daemon, the error is printed after \<^verbatim>\<open>Fatal error:\<close>, the three channel files are
  removed and the process exits with status 1. When it throws during a restart that a
  dispatched command set off, the error is printed after
  \<^verbatim>\<open>Failed to restart browser:\<close>, the dispatcher writes the error Response carrying
  its message, and the daemon goes on as before: it has not exited, the ready marker
  is in place and the polling interval stays installed.
\<close>

theorem startup_failure_is_fatal_at_boot_only:
  "(\<forall>e s1. startBrowser E (cleanup s) = (Inl e, s1) \<longrightarrow>
       exitCode (boot E s) = Some 1 \<and> COMMAND_FILE (boot E s) = None \<and> RESULT_FILE (boot E s) = None
       \<and> READY_FILE (boot E s) = None
       \<and> last (stdio (boot E s)) = (Stderr, [Str ''Fatal error:'', ErrObj e]))
   \<and> (\<forall>err s1 s2 e s3.
         executeCommandInner E J c s = (Inl err, s1) \<and> session_lost err
         \<and> needsRestart E (say Stdout [Str ''Command failed, restarting browser...''] s1) = (True, s2)
         \<and> startBrowser E (teardown E
               ((say Stdout [Str ''Browser/page closed, restarting...''] s2)\<lparr>isRestarting := True\<rparr>)) = (Inl e, s3)
       \<longrightarrow> executeCommand E J c s
             = writeResult J (ErrorResp e)
                 ((say Stderr [Str ''Failed to restart browser:'', ErrObj e] s3)\<lparr>isRestarting := False\<rparr>)
           \<and> exitCode (executeCommand E J c s) = exitCode s
           \<and> READY_FILE (executeCommand E J c s) = READY_FILE s
           \<and> watching (executeCommand E J c s) = watching s)"
proof -
  have a: "\<forall>e s1. startBrowser E (cleanup s) = (Inl e, s1) \<longrightarrow>
       exitCode (boot E s) = Some 1 \<and> COMMAND_FILE (boot E s) = None \<and> RESULT_FILE (boot E s) = None
       \<and> READY_FILE (boot E s) = None
       \<and> last (stdio (boot E s)) = (Stderr, [Str ''Fatal error:'', ErrObj e])"
    by (simp add: boot_def startDaemon_def cleanup_def say_def)
  have b: "\<forall>err s1 s2 e s3.
         executeCommandInner E J c s = (Inl err, s1) \<and> session_lost err
         \<and> needsRestart E (say Stdout [Str ''Command failed, restarting browser...''] s1) = (True, s2)
         \<and> startBrowser E (teardown E
               ((say Stdout [Str ''Browser/page closed, restarting...''] s2)\<lparr>isRestarting := True\<rparr>)) = (Inl e, s3)
       \<longrightarrow> executeCommand E J c s
             = writeResult J (ErrorResp e)
                 ((say Stderr [Str ''Failed to restart browser:'', ErrObj e] s3)\<lparr>isRestarting := False\<rparr>)"
    by (simp add: executeCommand_def ensureBrowserReady_def restart_try_def)
  have "same_process s (executeCommand E J c s)" by (rule same_process_executeCommand)
  then have "exitCode (executeCommand E J c s) = exitCode s
           \<and> READY_FILE (executeCommand E J c s) = READY_FILE s
           \<and> watching (executeCommand E J c s) = watching s"
    by (simp add: same_process_def)
  with a b show ?thesis by blast
qed

theorem startup_failure_is_fatal_at_boot_only_witness:
  "fst (startBrowser simE (cleanup (initial (sim0\<lparr>can_launch := False\<rparr>) (Some ''status'') None (Some ''ready''))))
     = Inl ''Failed to launch chrome''
   \<and> exitCode (boot simE (initial (sim0\<lparr>can_launch := False\<rparr>) (Some ''status'') None (Some ''ready''))) = Some 1
   \<and> READY_FILE (boot simE (initial (sim0\<lparr>can_launch := False\<rparr>) (Some ''status'') None (Some ''ready''))) = None
   \<and> fst (executeCommandInner simE simJ (cmd ''status'' no_data) (no_chrome (window_closed visited))) = Inl closed_msg
   \<and> session_lost closed_msg
   \<and> exitCode (executeCommand simE simJ (cmd ''status'' no_data) (no_chrome (window_closed visited))) = None
   \<and> READY_FILE (executeCommand simE simJ (cmd ''status'' no_data) (no_chrome (window_closed visited))) = Some ''ready''
   \<and> RESULT_FILE (executeCommand simE simJ (cmd ''status'' no_data) (no_chrome (window_closed visited)))
       = Some (stringifyResult simJ (ErrorResp ''Failed to launch chrome''))"
proof -
  let ?i = "initial (sim0\<lparr>can_launch := False\<rparr>) (Some ''status'') None (Some ''ready'')"
  let ?c = "cmd ''status'' no_data"
  let ?s = "no_chrome (window_closed visited)"
  let ?s1 = "snd (executeCommandInner simE simJ ?c ?s)"
  let ?m = "say Stdout [Str ''Command failed, restarting browser...''] ?s1"
  let ?k = "teardown simE ((say Stdout [Str ''Browser/page closed, restarting...''] ?m)\<lparr>isRestarting := True\<rparr>)"
  let ?e = "''Failed to launch chrome''"
  have b1: "fst (startBrowser simE (cleanup ?i)) = Inl ?e" by code_simp
  then have b: "startBrowser simE (cleanup ?i) = (Inl ?e, snd (startBrowser simE (cleanup ?i)))"
    by (simp add: prod_eq_iff)
  from startup_failure_is_fatal_at_boot_only [of simE ?i simJ ?c] b
  have x: "exitCode (boot simE ?i) = Some 1 \<and> READY_FILE (boot simE ?i) = None" by blast
  have f1: "fst (executeCommandInner simE simJ ?c ?s) = Inl closed_msg" by code_simp
  then have h1: "executeCommandInner simE simJ ?c ?s = (Inl closed_msg, ?s1)" by (simp add: prod_eq_iff)
  have h2: "session_lost closed_msg" by code_simp
  have h3: "needsRestart simE ?m = (True, ?m)" by code_simp
  have f4: "fst (startBrowser simE ?k) = Inl ?e" by code_simp
  then have h4: "startBrowser simE ?k = (Inl ?e, snd (startBrowser simE ?k))" by (simp add: prod_eq_iff)
  from startup_failure_is_fatal_at_boot_only [of simE ?s simJ ?c] h1 h2 h3 h4
  have y: "executeCommand simE simJ ?c ?s
             = writeResult simJ (ErrorResp ?e)
                 ((say Stderr [Str ''Failed to restart browser:'', ErrObj ?e] (snd (startBrowser simE ?k)))
                    \<lparr>isRestarting := False\<rparr>)"
    and y': "exitCode (executeCommand simE simJ ?c ?s) = exitCode ?s"
            "READY_FILE (executeCommand simE simJ ?c ?s) = READY_FILE ?s"
    by blast+
  have z: "exitCode ?s = None" "READY_FILE ?s = Some ''ready''" by code_simp+
  have r: "RESULT_FILE (executeCommand simE simJ ?c ?s) = Some (stringifyResult simJ (ErrorResp ?e))"
    by (simp add: y writeResult_def)
  from b1 x f1 h2 y' z r show ?thesis by simp
qed

text \<open>
  Claim C2 as stated fails for the lazy restart: with the window closed and the browser
  impossible to launch, a dispatched \<^verbatim>\<open>exec\<close> ends with the daemon still running, its
  ready marker in place and an error Response in the response slot.
\<close>

theorem restart_failure_is_not_fatal:
  "fst (launch simE (world (no_chrome (window_closed visited)))) = Inl ''Failed to launch chrome''
   \<and> exitCode (tick simE simJ ((no_chrome (window_closed visited))\<lparr>COMMAND_FILE := Some ''exec 1''\<rparr>)) = None
   \<and> READY_FILE (tick simE simJ ((no_chrome (window_closed visited))\<lparr>COMMAND_FILE := Some ''exec 1''\<rparr>))
       = Some ''ready''
   \<and> RESULT_FILE (tick simE simJ ((no_chrome (window_closed visited))\<lparr>COMMAND_FILE := Some ''exec 1''\<rparr>))
       = Some (stringifyResult simJ (ErrorResp ''Failed to launch chrome''))
   \<and> last (stdio (tick simE simJ ((no_chrome (window_closed visited))\<lparr>COMMAND_FILE := Some ''exec 1''\<rparr>)))
       = (Stderr, [Str ''Failed to restart browser:'', ErrObj ''Failed to launch chrome''])"
  by code_simp

text \<open>
  Claim C3 at the state in which one restart is suspended in \<^verbatim>\<open>chromium.launch\<close> with
  the restarting mark set: a second call of \<^verbatim>\<open>ensureBrowserReady\<close> does not wait. It
  runs the whole restart itself, launching a browser of its own, and clears the mark
  while the first restart is still in flight. The mark is written at lines 87 and 105
  and read nowhere.
\<close>

theorem restart_runs_again_while_marked:
  "isRestarting mid_restart
   \<and> launches (world mid_restart) = 1
   \<and> fst (ensureBrowserReady simE mid_restart) = Inr ()
   \<and> launches (world (snd (ensureBrowserReady simE mid_restart))) = 2
   \<and> \<not> isRestarting (snd (ensureBrowserReady simE mid_restart))"
  by code_simp

section \<open>The client: exit status and the response slot\<close>

lemma wait_result_collects:
  "wait_result J dw k s = (Resolved r, s') \<Longrightarrow>
   (\<exists>j body. k \<le> j \<and> dw j = Some body \<and> parseResult J body = Inr r)
   \<or> (\<exists>body. RESULT_FILE s = Some body \<and> parseResult J body = Inr r)"
proof (induction J dw k s rule: wait_result.induct)
  case (1 J dw k s)
  show ?case
  proof (cases "dw k")
    case (Some body)
    with "1.prems" have "parseResult J body = Inr r"
      by (simp add: wait_result.simps [of J dw k s] arrive_def split: sum.splits)
    with Some show ?thesis by blast
  next
    case None
    then have a: "arrive (dw k) s = s" by (simp add: arrive_def)
    show ?thesis
    proof (cases "RESULT_FILE s")
      case (Some body)
      with "1.prems" a have "parseResult J body = Inr r"
        by (simp add: wait_result.simps [of J dw k s] split: sum.splits)
      with Some show ?thesis by blast
    next
      case empty: None
      show ?thesis
      proof (cases "50 * k > 30000")
        case True
        with "1.prems" a empty show ?thesis by (simp add: wait_result.simps [of J dw k s])
      next
        case False
        with "1.prems" a empty have "wait_result J dw (Suc k) s = (Resolved r, s')"
          by (simp add: wait_result.simps [of J dw k s])
        with "1.IH" a empty False
        obtain j body where "Suc k \<le> j" "dw j = Some body" "parseResult J body = Inr r"
          by auto
        then show ?thesis by (meson Suc_leD)
      qed
    qed
  qed
qed

lemma wait_result_timeout:
  "RESULT_FILE s = None \<Longrightarrow> \<forall>j. k \<le> j \<and> j \<le> 601 \<longrightarrow> dw j = None \<Longrightarrow> k \<le> 601 \<Longrightarrow>
   wait_result J dw k s = (Rejected ''Command timeout'', s)"
proof (induction J dw k s rule: wait_result.induct)
  case (1 J dw k s)
  from "1.prems" have n: "dw k = None" by simp
  then have a: "arrive (dw k) s = s" by (simp add: arrive_def)
  show ?case
  proof (cases "50 * k > 30000")
    case True
    with "1.prems" a show ?thesis by (simp add: wait_result.simps [of J dw k s])
  next
    case False
    then have "Suc k \<le> 601" by simp
    moreover from "1.prems"(2) have "\<forall>j. Suc k \<le> j \<and> j \<le> 601 \<longrightarrow> dw j = None" by simp
    ultimately have "wait_result J dw (Suc k) s = (Rejected ''Command timeout'', s)"
      using "1.IH" "1.prems"(1) a False by simp
    with "1.prems"(1) a False show ?thesis by (simp add: wait_result.simps [of J dw k s])
  qed
qed

lemma exitCode_settle:
  "exitCode (settle report os) =
     Some (case fst os of
             Resolved r \<Rightarrow> (case fst (report r (snd os)) of Inl e \<Rightarrow> 1 | Inr u \<Rightarrow> 0)
           | Rejected e \<Rightarrow> 1
           | Crashed e \<Rightarrow> 1)"
  by (cases os) (auto simp: settle_def say_def split: outcome.splits prod.splits sum.splits)

lemma fst_reports:
  "fst (report_navigate r s) = Inr ()"
  "fst (report_exec r s) = Inr ()"
  "fst (report_clear r s) = Inr ()"
  "fst (report_status r s) = Inr ()"
  "fst (report_resize r s) = Inr ()"
  "fst (report_console r s) = (if r_success r \<and> r_logs r = None then Inl (undefined_read ''length'') else Inr ())"
  by (simp_all add: report_navigate_def report_exec_def report_clear_def report_status_def
        report_resize_def report_console_def split: option.splits)

lemma wait_result_hit:
  "dw k = Some body \<Longrightarrow> parseResult J body = Inr r \<Longrightarrow>
   wait_result J dw k s = (Resolved r, s\<lparr>RESULT_FILE := None\<rparr>)"
  by (simp add: wait_result.simps [of J dw k s] arrive_def)

lemma wait_result_skip:
  "dw k = None \<Longrightarrow> RESULT_FILE s = None \<Longrightarrow> k \<le> 600 \<Longrightarrow>
   wait_result J dw k s = wait_result J dw (Suc k) s"
  by (simp add: wait_result.simps [of J dw k s] arrive_def)

lemma main_exit_code:
  assumes "exitCode s = None" and "READY_FILE s \<noteq> None"
  shows "exitCode (main J parseInt dw args s) =
           Some (case request_of parseInt args of
                   None \<Rightarrow> 1
                 | Some c \<Rightarrow>
                     (case fst (sendCommand J dw c s) of
                        Resolved r \<Rightarrow> if action c = Some ''console'' \<and> r_success r \<and> r_logs r = None then 1 else 0
                      | Rejected e \<Rightarrow> 1
                      | Crashed e \<Rightarrow> 1))"
proof -
  have k: "checkDaemonRunning s = s" using assms(2) by (auto simp: checkDaemonRunning_def)
  consider (navigate) "arg args 0 = Some ''navigate''"
    | (exec) "arg args 0 = Some ''exec''"
    | (console) "arg args 0 = Some ''console''"
    | (clear) "arg args 0 = Some ''console-clear''"
    | (status) "arg args 0 = Some ''status''"
    | (resize) "arg args 0 = Some ''resize''"
    | (other) "arg args 0 \<noteq> Some ''navigate''" "arg args 0 \<noteq> Some ''exec''"
        "arg args 0 \<noteq> Some ''console''" "arg args 0 \<noteq> Some ''console-clear''"
        "arg args 0 \<noteq> Some ''status''" "arg args 0 \<noteq> Some ''resize''"
    by blast
  then show ?thesis
  proof cases
    case navigate
    with assms(1) show ?thesis
      by (simp add: main_def k request_of_def exitCode_settle fst_reports say_def split: outcome.splits)
  next
    case exec
    with assms(1) show ?thesis
      by (simp add: main_def k request_of_def exitCode_settle fst_reports say_def split: outcome.splits)
  next
    case console
    with assms(1) show ?thesis
      by (simp add: main_def k request_of_def exitCode_settle fst_reports split: outcome.splits)
  next
    case clear
    with assms(1) show ?thesis
      by (simp add: main_def k request_of_def exitCode_settle fst_reports split: outcome.splits)
  next
    case status
    with assms(1) show ?thesis
      by (simp add: main_def k request_of_def exitCode_settle fst_reports split: outcome.splits)
  next
    case resize
    with assms(1) show ?thesis
      by (simp add: main_def k request_of_def exitCode_settle fst_reports say_def split: outcome.splits)
  next
    case other
    with assms(1) show ?thesis
      by (simp add: main_def k request_of_def usage_def say_def)
  qed
qed

lemma wait_result_found:
  "dw k = None \<Longrightarrow> RESULT_FILE s = Some body \<Longrightarrow> parseResult J body = Inr r \<Longrightarrow>
   wait_result J dw k s = (Resolved r, s\<lparr>RESULT_FILE := None\<rparr>)"
  by (simp add: wait_result.simps [of J dw k s] arrive_def)

lemma unlinked: "(if RESULT_FILE s \<noteq> None then s\<lparr>RESULT_FILE := None\<rparr> else s) = s\<lparr>RESULT_FILE := None\<rparr>"
  by (cases s) simp

lemma sendCommand_start:
  "sendCommand J dw c s
     = wait_result J dw 1
         ((arrive (dw 0) (s\<lparr>RESULT_FILE := None\<rparr>))\<lparr>COMMAND_FILE := Some (stringifyCommand J c)\<rparr>)"
  unfolding sendCommand_def by (simp only: unlinked)

lemma sendCommand_second_firing:
  assumes "dw 0 = None" and "dw 1 = None" and "dw 2 = Some body" and "parseResult J body = Inr r"
  shows "fst (sendCommand J dw c s) = Resolved r"
proof -
  let ?s = "(arrive (dw 0) (s\<lparr>RESULT_FILE := None\<rparr>))\<lparr>COMMAND_FILE := Some (stringifyCommand J c)\<rparr>"
  have e: "RESULT_FILE ?s = None" using assms(1) by (simp add: arrive_def)
  have "wait_result J dw 1 ?s = wait_result J dw (Suc 1) ?s"
    by (rule wait_result_skip [where dw = dw and k = 1 and s = ?s, OF assms(2) e]) simp
  also have "Suc 1 = (2::nat)" by simp
  also have "wait_result J dw 2 ?s = (Resolved r, ?s\<lparr>RESULT_FILE := None\<rparr>)"
    by (rule wait_result_hit [where dw = dw and k = 2, OF assms(3,4)])
  finally show ?thesis by (simp add: sendCommand_start)
qed

text \<open>
  Claim C4, as the code has it. A client that starts with the ready marker absent exits
  with status 1, and so does one whose arguments give no Request. Otherwise the exit
  status follows the way the wait for the Response ends: 1 when the wait times out
  (which it does when the daemon writes nothing during the first 601 firings of the
  50 ms timer, that is, up to the first check later than 30000 ms), 1 when the text of
  the Response cannot be decoded, and 0 whenever a Response is collected, whether it
  reports success or an error. The one exception is a \<^verbatim>\<open>console\<close> request that
  collects a success Response without \<^verbatim>\<open>logs\<close>: reading \<^verbatim>\<open>result.logs.length\<close>
  throws and the status is 1.
\<close>

theorem client_exit_code:
  assumes "exitCode s = None"
  shows "(READY_FILE s = None \<longrightarrow> exitCode (main J parseInt dw args s) = Some 1)
       \<and> (READY_FILE s \<noteq> None \<and> request_of parseInt args = None \<longrightarrow>
            exitCode (main J parseInt dw args s) = Some 1)
       \<and> (\<forall>c. READY_FILE s \<noteq> None \<and> request_of parseInt args = Some c \<longrightarrow>
            exitCode (main J parseInt dw args s) =
              Some (case fst (sendCommand J dw c s) of
                      Resolved r \<Rightarrow> if action c = Some ''console'' \<and> r_success r \<and> r_logs r = None then 1 else 0
                    | Rejected e \<Rightarrow> 1
                    | Crashed e \<Rightarrow> 1))
       \<and> (\<forall>c. (\<forall>j. j \<le> 601 \<longrightarrow> dw j = None) \<longrightarrow>
            fst (sendCommand J dw c s) = Rejected ''Command timeout'')"
proof -
  have a: "READY_FILE s = None \<longrightarrow> exitCode (main J parseInt dw args s) = Some 1"
    by (simp add: main_def checkDaemonRunning_def say_def)
  have b: "READY_FILE s \<noteq> None \<and> request_of parseInt args = None \<longrightarrow>
            exitCode (main J parseInt dw args s) = Some 1"
    using main_exit_code [OF assms, of J parseInt dw args] by simp
  have c: "\<forall>c. READY_FILE s \<noteq> None \<and> request_of parseInt args = Some c \<longrightarrow>
            exitCode (main J parseInt dw args s) =
              Some (case fst (sendCommand J dw c s) of
                      Resolved r \<Rightarrow> if action c = Some ''console'' \<and> r_success r \<and> r_logs r = None then 1 else 0
                    | Rejected e \<Rightarrow> 1
                    | Crashed e \<Rightarrow> 1)"
    using main_exit_code [OF assms, of J parseInt dw args] by simp
  have d: "\<forall>c. (\<forall>j. j \<le> 601 \<longrightarrow> dw j = None) \<longrightarrow>
            fst (sendCommand J dw c s) = Rejected ''Command timeout''"
    by (simp add: sendCommand_start wait_result_timeout arrive_def)
  from a b c d show ?thesis by blast
qed

theorem client_exit_code_witness:
  "exitCode ready = None
   \<and> READY_FILE ready \<noteq> None
   \<and> request_of (\<lambda>a. None) [''status''] = Some (cmd ''status'' no_data)
   \<and> fst (sendCommand simJ (\<lambda>k. if k = 2 then Some ''status http://a.test'' else None) (cmd ''status'' no_data) ready)
       = Resolved (StatusOk ''http://a.test'' [] 0)
   \<and> exitCode (main simJ (\<lambda>a. None) (\<lambda>k. if k = 2 then Some ''status http://a.test'' else None) [''status''] ready)
       = Some 0
   \<and> request_of (\<lambda>a. None) [''resize'', ''wide'', ''high''] = None
   \<and> exitCode (main simJ (\<lambda>a. None) (\<lambda>k. None) [''resize'', ''wide'', ''high''] ready) = Some 1
   \<and> exitCode (main simJ (\<lambda>a. None) (\<lambda>k. None) [''status''] ready) = Some 1
   \<and> READY_FILE (ready\<lparr>READY_FILE := None\<rparr>) = None
   \<and> exitCode (main simJ (\<lambda>a. None) (\<lambda>k. None) [''status''] (ready\<lparr>READY_FILE := None\<rparr>)) = Some 1"
proof -
  let ?dw = "\<lambda>k::nat. if k = 2 then Some ''status http://a.test'' else None"
  let ?no = "\<lambda>k::nat. None :: string option"
  let ?p = "\<lambda>a::string option. None :: int option"
  have h: "exitCode ready = None" and r: "READY_FILE ready \<noteq> None" by (simp_all add: ready_def)
  have q: "request_of ?p [''status''] = Some (cmd ''status'' no_data)"
    by (simp add: request_of_def arg_def cmd_def)
  have q': "request_of ?p [''resize'', ''wide'', ''high''] = None"
    by (simp add: request_of_def arg_def)
  have p: "parseResult simJ ''status http://a.test'' = Inr (StatusOk ''http://a.test'' [] 0)" by code_simp
  have s: "fst (sendCommand simJ ?dw (cmd ''status'' no_data) ready) = Resolved (StatusOk ''http://a.test'' [] 0)"
    using p by (intro sendCommand_second_firing [where body = "''status http://a.test''"]) simp_all
  have a: "action (cmd ''status'' no_data) = Some ''status''" by (simp add: cmd_def)
  from client_exit_code [OF h, of simJ ?p ?dw "[''status'']"] r q s a
  have e0: "exitCode (main simJ ?p ?dw [''status''] ready) = Some 0" by simp
  from client_exit_code [OF h, of simJ ?p ?no "[''resize'', ''wide'', ''high'']"] r q'
  have e1: "exitCode (main simJ ?p ?no [''resize'', ''wide'', ''high''] ready) = Some 1" by simp
  from client_exit_code [OF h, of simJ ?p ?no "[''status'']"] r q
  have e2: "exitCode (main simJ ?p ?no [''status''] ready) = Some 1" by simp
  have h': "exitCode (ready\<lparr>READY_FILE := None\<rparr>) = None" by (simp add: ready_def)
  from client_exit_code [OF h', of simJ ?p ?no "[''status'']"]
  have e3: "exitCode (main simJ ?p ?no [''status''] (ready\<lparr>READY_FILE := None\<rparr>)) = Some 1" by simp
  from h r q s e0 q' e1 e2 e3 show ?thesis by simp
qed

text \<open>
  Claim C4 as stated fails for an error Response: the daemon is running, the client
  sends \<^verbatim>\<open>status\<close>, collects a Response that reports an error, prints it, and exits
  with status 0.
\<close>

theorem error_response_exits_zero:
  "READY_FILE ready \<noteq> None
   \<and> fst (sendCommand simJ (\<lambda>k. if k = 2 then Some ''error boom'' else None) (cmd ''status'' no_data) ready)
       = Resolved (ErrorResp ''boom'')
   \<and> \<not> r_success (ErrorResp ''boom'')
   \<and> exitCode (main simJ (\<lambda>a. None) (\<lambda>k. if k = 2 then Some ''error boom'' else None) [''status''] ready)
       = Some 0"
proof -
  let ?dw = "\<lambda>k::nat. if k = 2 then Some ''error boom'' else None"
  have p: "parseResult simJ ''error boom'' = Inr (ErrorResp ''boom'')" by code_simp
  have s: "fst (sendCommand simJ ?dw c ready) = Resolved (ErrorResp ''boom'')" for c
    using p by (intro sendCommand_second_firing [where body = "''error boom''"]) simp_all
  have r: "READY_FILE ready \<noteq> None" by (simp add: ready_def)
  have "exitCode (main simJ (\<lambda>a. None) ?dw [''status''] ready) = Some 0"
    using s r by (simp add: main_def checkDaemonRunning_def arg_def exitCode_settle fst_reports cmd_def)
      (simp add: ready_def)
  with r s show ?thesis by simp
qed

text \<open>
  Claim C10, as the code has it. \<^verbatim>\<open>sendCommand\<close> deletes the response slot before it
  writes the Request, so what the slot held when the call began has no effect on what
  the call returns and is never collected. A Response that the call collects is one
  that the daemon wrote after the deletion. When the daemon writes nothing between the
  deletion and the writing of the Request, a collected Response was written after the
  Request was sent. A Response that the daemon writes in between, with nothing written
  before the first firing of the client's timer, is collected at that firing.
\<close>

theorem collected_response_was_written_after_unlink:
  "sendCommand J dw c s
     = wait_result J dw 1
         ((arrive (dw 0) (s\<lparr>RESULT_FILE := None\<rparr>))\<lparr>COMMAND_FILE := Some (stringifyCommand J c)\<rparr>)
   \<and> sendCommand J dw c (s\<lparr>RESULT_FILE := stale\<rparr>) = sendCommand J dw c (s\<lparr>RESULT_FILE := None\<rparr>)
   \<and> (\<forall>r s'. sendCommand J dw c s = (Resolved r, s') \<longrightarrow>
         (\<exists>j body. dw j = Some body \<and> parseResult J body = Inr r))
   \<and> (\<forall>r s'. dw 0 = None \<and> sendCommand J dw c s = (Resolved r, s') \<longrightarrow>
         (\<exists>j body. 1 \<le> j \<and> dw j = Some body \<and> parseResult J body = Inr r))
   \<and> (\<forall>body r. dw 0 = Some body \<and> dw 1 = None \<and> parseResult J body = Inr r \<longrightarrow>
         fst (sendCommand J dw c s) = Resolved r)"
proof -
  let ?s = "(arrive (dw 0) (s\<lparr>RESULT_FILE := None\<rparr>))\<lparr>COMMAND_FILE := Some (stringifyCommand J c)\<rparr>"
  have slot: "RESULT_FILE ?s = dw 0" by (cases "dw 0") (simp_all add: arrive_def)
  have start: "sendCommand J dw c t = wait_result J dw 1
      ((arrive (dw 0) (t\<lparr>RESULT_FILE := None\<rparr>))\<lparr>COMMAND_FILE := Some (stringifyCommand J c)\<rparr>)" for t
    by (rule sendCommand_start)
  have same: "sendCommand J dw c (s\<lparr>RESULT_FILE := stale\<rparr>) = sendCommand J dw c (s\<lparr>RESULT_FILE := None\<rparr>)"
    by (simp add: start)
  have any: "\<exists>j body. (dw 0 = None \<longrightarrow> 1 \<le> j) \<and> dw j = Some body \<and> parseResult J body = Inr r"
    if "sendCommand J dw c s = (Resolved r, s')" for r s'
  proof -
    from that have "wait_result J dw 1 ?s = (Resolved r, s')" by (simp add: start)
    from wait_result_collects [OF this] slot show ?thesis by auto
  qed
  have gap: "fst (sendCommand J dw c s) = Resolved r"
    if "dw 0 = Some body" "dw 1 = None" "parseResult J body = Inr r" for body r
  proof -
    from that(1) slot have "RESULT_FILE ?s = Some body" by simp
    from wait_result_found [where dw = dw and k = 1 and s = ?s, OF that(2) this that(3)]
    show ?thesis by (simp add: start)
  qed
  from start [of s] same any gap show ?thesis by blast
qed

theorem collected_response_was_written_after_unlink_witness:
  "RESULT_FILE (ready\<lparr>RESULT_FILE := Some ''at http://old.test''\<rparr>) = Some ''at http://old.test''
   \<and> sendCommand simJ (\<lambda>k. if k = 2 then Some ''status http://a.test'' else None) (cmd ''status'' no_data)
        (ready\<lparr>RESULT_FILE := Some ''at http://old.test''\<rparr>)
       = sendCommand simJ (\<lambda>k. if k = 2 then Some ''status http://a.test'' else None) (cmd ''status'' no_data)
           (ready\<lparr>RESULT_FILE := None\<rparr>)
   \<and> fst (sendCommand simJ (\<lambda>k. if k = 2 then Some ''status http://a.test'' else None) (cmd ''status'' no_data)
        (ready\<lparr>RESULT_FILE := Some ''at http://old.test''\<rparr>))
       = Resolved (StatusOk ''http://a.test'' [] 0)
   \<and> (\<lambda>k::nat. if k = 2 then Some ''status http://a.test'' else None) 0 = None
   \<and> (\<exists>j body. 1 \<le> j \<and> (\<lambda>k::nat. if k = 2 then Some ''status http://a.test'' else None) j = Some body
          \<and> parseResult simJ body = Inr (StatusOk ''http://a.test'' [] 0))
   \<and> parseResult simJ ''at http://old.test'' = Inr (NavigateOk ''http://old.test'' [])
   \<and> fst (sendCommand simJ (\<lambda>k. if k = 0 then Some ''at http://old.test'' else None) (cmd ''status'' no_data) ready)
       = Resolved (NavigateOk ''http://old.test'' [])"
proof -
  let ?dw = "\<lambda>k::nat. if k = 2 then Some ''status http://a.test'' else None"
  let ?gap = "\<lambda>k::nat. if k = 0 then Some ''at http://old.test'' else None"
  let ?c = "cmd ''status'' no_data"
  let ?s = "ready\<lparr>RESULT_FILE := Some ''at http://old.test''\<rparr>"
  have p: "parseResult simJ ''status http://a.test'' = Inr (StatusOk ''http://a.test'' [] 0)" by code_simp
  have q: "parseResult simJ ''at http://old.test'' = Inr (NavigateOk ''http://old.test'' [])" by code_simp
  have f: "fst (sendCommand simJ ?dw ?c ?s) = Resolved (StatusOk ''http://a.test'' [] 0)"
    using p by (intro sendCommand_second_firing [where body = "''status http://a.test''"]) simp_all
  then have e: "sendCommand simJ ?dw ?c ?s = (Resolved (StatusOk ''http://a.test'' [] 0), snd (sendCommand simJ ?dw ?c ?s))"
    by (simp add: prod_eq_iff)
  have z: "?dw 0 = None" by simp
  from collected_response_was_written_after_unlink [where J = simJ and dw = ?dw and c = ?c and s = ready
      and stale = "Some ''at http://old.test''"]
  have a: "sendCommand simJ ?dw ?c ?s = sendCommand simJ ?dw ?c (ready\<lparr>RESULT_FILE := None\<rparr>)" by blast
  from collected_response_was_written_after_unlink [where J = simJ and dw = ?dw and c = ?c and s = ?s] e z
  have b: "\<exists>j body. 1 \<le> j \<and> ?dw j = Some body \<and> parseResult simJ body = Inr (StatusOk ''http://a.test'' [] 0)"
    by blast
  have g0: "?gap 0 = Some ''at http://old.test''" and g1: "?gap 1 = None" by simp_all
  from collected_response_was_written_after_unlink [where J = simJ and dw = ?gap and c = ?c and s = ready] g0 g1 q
  have g: "fst (sendCommand simJ ?gap ?c ready) = Resolved (NavigateOk ''http://old.test'' [])" by blast
  from a f b q g show ?thesis by simp
qed

text \<open>
  Claim C10 as stated fails when the daemon writes between the deletion and the
  writing of the Request. The daemon, still busy with an earlier \<^verbatim>\<open>navigate\<close> whose
  client gave up, writes its Response just after the new client has deleted the
  response slot and before that client has written its \<^verbatim>\<open>status\<close> Request. The client
  then collects, for \<^verbatim>\<open>status\<close>, the \<^verbatim>\<open>navigate\<close> Response that was left in the slot
  before its Request was sent.
\<close>

theorem response_from_before_the_request_is_collected:
  "RESULT_FILE
     ((arrive ((\<lambda>k::nat. if k = 0 then Some ''at http://old.test'' else None) 0) (ready\<lparr>RESULT_FILE := None\<rparr>))
        \<lparr>COMMAND_FILE := Some (stringifyCommand simJ (cmd ''status'' no_data))\<rparr>)
     = Some (stringifyResult simJ (NavigateOk ''http://old.test'' []))
   \<and> parseResult simJ (stringifyResult simJ (NavigateOk ''http://old.test'' [])) = Inr (NavigateOk ''http://old.test'' [])
   \<and> fst (sendCommand simJ (\<lambda>k. if k = 0 then Some ''at http://old.test'' else None) (cmd ''status'' no_data) ready)
       = Resolved (NavigateOk ''http://old.test'' [])"
proof -
  let ?gap = "\<lambda>k::nat. if k = 0 then Some ''at http://old.test'' else None"
  let ?s = "(arrive (?gap 0) (ready\<lparr>RESULT_FILE := None\<rparr>))
              \<lparr>COMMAND_FILE := Some (stringifyCommand simJ (cmd ''status'' no_data))\<rparr>"
  have w: "stringifyResult simJ (NavigateOk ''http://old.test'' []) = ''at http://old.test''" by code_simp
  have q: "parseResult simJ ''at http://old.test'' = Inr (NavigateOk ''http://old.test'' [])" by code_simp
  have slot: "RESULT_FILE ?s = Some ''at http://old.test''" by (simp add: arrive_def)
  have g1: "?gap 1 = None" by simp
  have "wait_result simJ ?gap 1 ?s = (Resolved (NavigateOk ''http://old.test'' []), ?s\<lparr>RESULT_FILE := None\<rparr>)"
    by (rule wait_result_found [where dw = ?gap and k = 1 and s = ?s, OF g1 slot q])
  then have "fst (sendCommand simJ ?gap (cmd ''status'' no_data) ready) = Resolved (NavigateOk ''http://old.test'' [])"
    by (simp add: sendCommand_start)
  with slot w q show ?thesis by simp
qed

end
